(* ===== verification/Prelude.thy ===== *)
theory Prelude
  imports Complex_Main
begin

text \<open>
  Shared vocabulary of the development. The test script \<open>src/ADC_Test.py\<close> is a Python 2
  program: its exceptions are modelled as values of \<open>py_error\<close>; its effectful methods
  as functions of the exception-state type \<open>('s, 'a) exc\<close>, which returns the result or
  the raised exception together with the state reached (a Python exception does not undo
  the reads and writes performed before it); its float arithmetic as exact arithmetic on
  \<open>real\<close>, with the conversion \<open>int()\<close> of a float written out as \<open>py_trunc\<close>
  (truncation toward zero).
\<close>

named_theorems exc_simps "evaluation rules of the exception-state combinators"
named_theorems py_simps "evaluation rules of the Python builtins on concrete values"

section \<open>Python exceptions\<close>

text \<open>
  The exceptions the script can raise. \<open>ValueError_unpack n\<close>: a tuple assignment got
  \<open>n\<close> values where it expected another number; \<open>ValueError_int s\<close>: \<open>int(s)\<close> rejected
  the literal \<open>s\<close>; \<open>ZeroDivisionError\<close>; \<open>AttributeError a\<close>: a missing attribute
  \<open>a\<close> was read; \<open>SerialException m\<close>: raised by pyserial (port missing or not open);
  \<open>NameError x\<close>: the global \<open>x\<close> was never assigned; \<open>TypeError m\<close>: an operation was
  applied to operands of the wrong type (used by the model of the draft \<open>ADC_Test_V0_2.py\<close>);
  \<open>SystemExit n\<close>: the process exits with status \<open>n\<close> (argparse on a bad command line).
\<close>

datatype py_error =
    ValueError_unpack nat
  | ValueError_int string
  | ZeroDivisionError
  | AttributeError string
  | SerialException string
  | NameError string
  | TypeError string
  | SystemExit nat

section \<open>Exception-state computations\<close>

type_synonym ('s, 'a) exc = "'s \<Rightarrow> (py_error + 'a) \<times> 's"

definition ereturn :: "'a \<Rightarrow> ('s, 'a) exc" where
  "ereturn x = (\<lambda>s. (Inr x, s))"

definition eraise :: "py_error \<Rightarrow> ('s, 'a) exc" where
  "eraise e = (\<lambda>s. (Inl e, s))"

definition ebind :: "('s, 'a) exc \<Rightarrow> ('a \<Rightarrow> ('s, 'b) exc) \<Rightarrow> ('s, 'b) exc" where
  "ebind m f = (\<lambda>s. case m s of (Inl e, s') \<Rightarrow> (Inl e, s') | (Inr x, s') \<Rightarrow> f x s')"

text \<open>A pure computation that may raise, run without touching the state.\<close>

definition elift :: "py_error + 'a \<Rightarrow> ('s, 'a) exc" where
  "elift r = (\<lambda>s. (r, s))"

text \<open>A state update that cannot raise.\<close>

definition emodify :: "('s \<Rightarrow> 's) \<Rightarrow> ('s, unit) exc" where
  "emodify f = (\<lambda>s. (Inr (), f s))"

text \<open>Python's \<open>int(x)\<close> for a float \<open>x\<close> truncates toward zero.\<close>

definition py_trunc :: "real \<Rightarrow> int" where
  "py_trunc x = (if 0 \<le> x then \<lfloor>x\<rfloor> else \<lceil>x\<rceil>)"

section \<open>Laws of the exception-state combinators\<close>

lemma ebind_ereturn [simp, exc_simps]: "ebind (ereturn x) f = f x"
  by (simp add: ebind_def ereturn_def)

lemma ebind_eraise [simp, exc_simps]: "ebind (eraise e) f = eraise e"
  by (simp add: ebind_def eraise_def)

lemma ebind_assoc [simp, exc_simps]:
  "ebind (ebind m f) g = ebind m (\<lambda>x. ebind (f x) g)"
  by (rule ext) (simp add: ebind_def split: prod.splits sum.splits)

lemma ebind_elift_Inr [simp, exc_simps]: "ebind (elift (Inr x)) f = f x"
  by (simp add: ebind_def elift_def)

lemma ebind_elift_Inl [simp, exc_simps]: "ebind (elift (Inl e)) f = eraise e"
  by (simp add: ebind_def elift_def eraise_def)

lemma ebind_apply [exc_simps]:
  "ebind m f s = (case m s of (Inl e, s') \<Rightarrow> (Inl e, s') | (Inr x, s') \<Rightarrow> f x s')"
  by (simp add: ebind_def)

lemma ebind_apply_Inr [simp, exc_simps]: "m s = (Inr x, s') \<Longrightarrow> ebind m f s = f x s'"
  by (simp add: ebind_def)

lemma ebind_apply_Inl [simp, exc_simps]: "m s = (Inl e, s') \<Longrightarrow> ebind m f s = (Inl e, s')"
  by (simp add: ebind_def)

lemma ereturn_apply [simp, exc_simps]: "ereturn x s = (Inr x, s)"
  by (simp add: ereturn_def)

lemma eraise_apply [simp, exc_simps]: "eraise e s = (Inl e, s)"
  by (simp add: eraise_def)

lemma elift_apply [simp, exc_simps]: "elift r s = (r, s)"
  by (simp add: elift_def)

lemma emodify_apply [simp, exc_simps]: "emodify f s = (Inr (), f s)"
  by (simp add: emodify_def)

text \<open>
  The outcome of a bind is a success exactly when both parts succeed; the shape most
  proofs about composed handlers take apart.
\<close>

lemma ebind_Inr_iff:
  "ebind m f s = (Inr y, t) \<longleftrightarrow> (\<exists>x s'. m s = (Inr x, s') \<and> f x s' = (Inr y, t))"
  by (auto simp: ebind_def split: prod.splits sum.splits)

text \<open>A composition whose continuation always raises, raises, whatever the first part does.\<close>

lemma ebind_raises:
  assumes "\<And>x s. \<exists>e s'. f x s = (Inl e, s')"
  shows "\<exists>e s'. ebind m f s = (Inl e, s')"
  using assms [of _ "snd (m s)"] by (cases "m s") (auto simp: ebind_def split: sum.splits)

lemma eraise_raises [intro]: "\<exists>e' s'. eraise e s = (Inl e', s')"
  by simp

section \<open>Truncation of floats\<close>

lemma py_trunc_nonneg: "0 \<le> x \<Longrightarrow> py_trunc x = \<lfloor>x\<rfloor>"
  by (simp add: py_trunc_def)

lemma py_trunc_neg: "x < 0 \<Longrightarrow> py_trunc x = \<lceil>x\<rceil>"
  by (simp add: py_trunc_def)

lemma py_trunc_mono: "x \<le> y \<Longrightarrow> py_trunc x \<le> py_trunc y"
proof (cases "0 \<le> x")
  case True
  moreover assume "x \<le> y"
  ultimately show ?thesis by (simp add: py_trunc_def floor_mono)
next
  case False
  assume xy: "x \<le> y"
  show ?thesis
  proof (cases "0 \<le> y")
    case True
    have "py_trunc x = \<lceil>x\<rceil>" "\<lceil>x\<rceil> \<le> 0"
      using \<open>\<not> 0 \<le> x\<close> by (simp_all add: py_trunc_def ceiling_le_zero)
    moreover have "py_trunc y = \<lfloor>y\<rfloor>" "0 \<le> \<lfloor>y\<rfloor>"
      using True by (simp_all add: py_trunc_def)
    ultimately show ?thesis by linarith
  next
    case False
    with \<open>\<not> 0 \<le> x\<close> xy show ?thesis by (simp add: py_trunc_def ceiling_mono)
  qed
qed

lemma py_trunc_nonneg_iff: "0 \<le> py_trunc x \<longleftrightarrow> -1 < x"
  by (auto simp: py_trunc_def)

lemma py_trunc_abs_le: "\<bar>real_of_int (py_trunc x)\<bar> \<le> \<bar>x\<bar>"
  by (simp add: py_trunc_def)

lemma py_trunc_of_int [simp]: "py_trunc (real_of_int i) = i"
  by (simp add: py_trunc_def)

text \<open>Evaluating a truncation at a concrete value: bracket the value between integers.\<close>

lemma py_trunc_eqI:
  "0 \<le> x \<Longrightarrow> real_of_int k \<le> x \<Longrightarrow> x < real_of_int k + 1 \<Longrightarrow> py_trunc x = k"
  by (simp add: py_trunc_def floor_eq_iff)

lemma py_trunc_eqI_neg:
  "x < 0 \<Longrightarrow> real_of_int k - 1 < x \<Longrightarrow> x \<le> real_of_int k \<Longrightarrow> py_trunc x = k"
  by (simp add: py_trunc_def ceiling_eq_iff)

section \<open>Lists\<close>

lemma upt_Suc_cons: "i < j \<Longrightarrow> [i..<j] = i # [Suc i..<j]"
  by (simp add: upt_rec)

end
