(* ===== verification/Py_Str.thy ===== *)
theory Py_Str
  imports Prelude
begin

text \<open>
  The Python 2 string builtins the script calls on the serial lines it reads:
  \<open>str.rstrip()\<close>, \<open>str.split(",")\<close>, \<open>int(s)\<close> on a decimal literal, and \<open>str(n)\<close> of an
  integer (used to build the controller command). They are runtime library code, not code
  of the repository; each is modelled from the language reference. Lemmas: the separator
  split inverts the join, and \<open>int(str(n)) = n\<close>, also with the line terminator the DUT
  sends.
\<close>

section \<open>Whitespace and \<open>rstrip\<close>\<close>

text \<open>Python 2 \<open>str.isspace\<close> on a byte: space, \<open>\t \n \v \f \r\<close>.\<close>

definition py_isspace :: "char \<Rightarrow> bool" where
  "py_isspace c \<longleftrightarrow> c = CHR '' '' \<or> ((9::nat) \<le> of_char c \<and> of_char c \<le> (13::nat))"

definition py_rstrip :: "string \<Rightarrow> string" where
  "py_rstrip s = rev (dropWhile py_isspace (rev s))"

definition py_lstrip :: "string \<Rightarrow> string" where
  "py_lstrip s = dropWhile py_isspace s"

definition py_strip :: "string \<Rightarrow> string" where
  "py_strip s = py_lstrip (py_rstrip s)"

section \<open>\<open>str.split(sep)\<close>\<close>

text \<open>
  \<open>s.split(c)\<close> with an explicit one-character separator: the maximal pieces between
  separators, empty pieces kept; \<open>''.split(',') = ['']\<close>.
\<close>

fun py_split :: "char \<Rightarrow> string \<Rightarrow> string list" where
  "py_split c [] = [[]]"
| "py_split c (x # xs) =
     (let r = py_split c xs in if x = c then [] # r else (x # hd r) # tl r)"

fun py_join :: "char \<Rightarrow> string list \<Rightarrow> string" where
  "py_join c [] = []"
| "py_join c [w] = w"
| "py_join c (w # ws) = w @ c # py_join c ws"

section \<open>Decimal digits, \<open>str(n)\<close> and \<open>int(s)\<close>\<close>

definition is_digit :: "char \<Rightarrow> bool" where
  "is_digit c \<longleftrightarrow> (48::nat) \<le> of_char c \<and> of_char c \<le> (57::nat)"

definition digit_val :: "char \<Rightarrow> nat" where
  "digit_val c = of_char c - 48"

definition digit_char :: "nat \<Rightarrow> char" where
  "digit_char d = char_of (48 + d)"

fun show_nat :: "nat \<Rightarrow> string" where
  "show_nat n = (if n < 10 then [digit_char n] else show_nat (n div 10) @ [digit_char (n mod 10)])"

declare show_nat.simps [simp del]

text \<open>\<open>str(i)\<close> of a Python int.\<close>

definition show_int :: "int \<Rightarrow> string" where
  "show_int i = (if i < 0 then CHR ''-'' # show_nat (nat (- i)) else show_nat (nat i))"

definition parse_digits :: "string \<Rightarrow> nat option" where
  "parse_digits s =
     (if s \<noteq> [] \<and> list_all is_digit s then Some (foldl (\<lambda>a c. 10 * a + digit_val c) 0 s)
      else None)"

text \<open>
  \<open>int(s)\<close> with the default base 10: surrounding whitespace is ignored, then an optional
  sign and one or more decimal digits; anything else raises \<open>ValueError\<close> (here \<open>None\<close>).
\<close>

definition py_int :: "string \<Rightarrow> int option" where
  "py_int s =
     (case py_strip s of
        [] \<Rightarrow> None
      | c # r \<Rightarrow>
          if c = CHR ''-'' then map_option (\<lambda>n. - int n) (parse_digits r)
          else if c = CHR ''+'' then map_option int (parse_digits r)
          else map_option int (parse_digits (c # r)))"

lemma py_rstrip_append_space:
  "\<forall>c\<in>set t. py_isspace c \<Longrightarrow> py_rstrip (s @ t) = py_rstrip s"
  by (simp add: py_rstrip_def dropWhile_append)

lemma py_rstrip_no_space:
  "s \<noteq> [] \<Longrightarrow> \<not> py_isspace (last s) \<Longrightarrow> py_rstrip s = s"
  by (cases s rule: rev_cases) (auto simp: py_rstrip_def)

lemma py_lstrip_no_space:
  "s \<noteq> [] \<Longrightarrow> \<not> py_isspace (hd s) \<Longrightarrow> py_lstrip s = s"
  by (cases s) (auto simp: py_lstrip_def)

lemma py_isspace_crlf [simp, py_simps]:
  "py_isspace (CHR 0x0D)" "py_isspace (CHR 0x0A)" "py_isspace (CHR '' '')"
  by (simp_all add: py_isspace_def)

lemma py_split_not_Nil [simp]: "py_split c s \<noteq> []"
  by (induction s) (auto simp: Let_def)

lemma py_split_no_sep: "c \<notin> set w \<Longrightarrow> py_split c w = [w]"
  by (induction w) (auto simp: Let_def)

lemma py_split_sep_free_prefix:
  "c \<notin> set w \<Longrightarrow> py_split c (w @ c # s) = w # py_split c s"
  by (induction w) (auto simp: Let_def)

text \<open>Splitting at the separator inverts joining with it, when no piece holds the separator.\<close>

lemma py_split_py_join:
  "ws \<noteq> [] \<Longrightarrow> \<forall>w\<in>set ws. c \<notin> set w \<Longrightarrow> py_split c (py_join c ws) = ws"
proof (induction ws rule: py_join.induct)
  case (3 c w v vs)
  then show ?case by (simp add: py_split_sep_free_prefix)
qed (simp_all add: py_split_no_sep)

lemma py_join_Cons: "py_join c (w # ws) = (if ws = [] then w else w @ c # py_join c ws)"
  by (cases ws) auto

lemma py_join_py_split: "py_join c (py_split c s) = s"
proof (induction s)
  case (Cons x xs)
  obtain w ws where r: "py_split c xs = w # ws"
    by (cases "py_split c xs") auto
  with Cons.IH show ?case
    by (auto simp: Let_def py_join_Cons split: if_splits)
qed simp

lemma length_py_split: "length (py_split c s) = Suc (count_list s c)"
  by (induction s) (auto simp: Let_def)

lemma of_char_digit_char: "d < 10 \<Longrightarrow> of_char (digit_char d) = (48 + d :: nat)"
  by (simp add: digit_char_def)

lemma digit_char_neq: "d < 10 \<Longrightarrow> of_char c < (48::nat) \<Longrightarrow> digit_char d \<noteq> c"
  by (auto simp: of_char_digit_char)

lemma digit_char_props:
  assumes "d < 10"
  shows "is_digit (digit_char d)" "digit_val (digit_char d) = d" "\<not> py_isspace (digit_char d)"
    "digit_char d \<noteq> CHR ''-''" "digit_char d \<noteq> CHR ''+''" "digit_char d \<noteq> CHR '',''"
  using assms
  by (simp_all add: is_digit_def digit_val_def py_isspace_def of_char_digit_char digit_char_neq)

lemma show_nat_not_Nil [simp]: "show_nat n \<noteq> []"
  by (subst show_nat.simps) simp

lemma set_show_nat: "c \<in> set (show_nat n) \<Longrightarrow> \<exists>d<10. c = digit_char d"
proof (induction n rule: show_nat.induct)
  case (1 n)
  show ?case
  proof (cases "n < 10")
    case True
    with "1.prems" show ?thesis by (auto simp: show_nat.simps [of n])
  next
    case False
    with "1.prems" False have "c \<in> set (show_nat (n div 10)) \<or> c = digit_char (n mod 10)"
      by (auto simp: show_nat.simps [of n])
    moreover have "n mod 10 < 10" by simp
    ultimately show ?thesis using False "1.IH" by blast
  qed
qed

lemma show_nat_digits: "list_all is_digit (show_nat n)"
  by (auto simp: list_all_iff dest!: set_show_nat intro: digit_char_props)

lemma foldl_digits_show_nat: "foldl (\<lambda>a c. 10 * a + digit_val c) 0 (show_nat n) = n"
proof (induction n rule: show_nat.induct)
  case (1 n)
  show ?case
  proof (cases "n < 10")
    case True
    then show ?thesis by (simp add: show_nat.simps [of n] digit_char_props)
  next
    case False
    with "1.IH" show ?thesis by (simp add: show_nat.simps [of n] digit_char_props)
  qed
qed

lemma parse_digits_show_nat [simp]: "parse_digits (show_nat n) = Some n"
  by (simp add: parse_digits_def show_nat_digits foldl_digits_show_nat)

lemma hd_show_nat: "\<exists>d<10. hd (show_nat n) = digit_char d"
  using set_show_nat [of "hd (show_nat n)" n] by simp

lemma last_show_nat: "\<exists>d<10. last (show_nat n) = digit_char d"
  using set_show_nat [of "last (show_nat n)" n] by simp

lemma py_rstrip_show_nat [simp]: "py_rstrip (show_nat n) = show_nat n"
  using last_show_nat [of n] by (auto intro: py_rstrip_no_space simp: digit_char_props)

lemma py_lstrip_show_nat [simp]: "py_lstrip (show_nat n) = show_nat n"
  using hd_show_nat [of n] by (auto intro: py_lstrip_no_space simp: digit_char_props)

lemma py_strip_show_nat [simp]: "py_strip (show_nat n) = show_nat n"
  by (simp add: py_strip_def)

lemma py_strip_show_int [simp]: "py_strip (show_int i) = show_int i"
proof -
  have "py_rstrip (CHR ''-'' # show_nat m) = CHR ''-'' # show_nat m" for m
    using last_show_nat [of m] by (auto intro!: py_rstrip_no_space simp: digit_char_props)
  moreover have "py_lstrip (CHR ''-'' # show_nat m) = CHR ''-'' # show_nat m" for m
    by (simp add: py_lstrip_def py_isspace_def)
  ultimately show ?thesis by (simp add: show_int_def py_strip_def del: py_strip_show_nat)
qed

lemma show_int_not_Nil [simp]: "show_int i \<noteq> []"
  by (simp add: show_int_def)

lemma py_strip_trailing_space:
  "\<forall>c\<in>set t. py_isspace c \<Longrightarrow> py_strip (s @ t) = py_strip s"
  by (simp add: py_strip_def py_rstrip_append_space)

lemma set_show_int: "c \<in> set (show_int i) \<Longrightarrow> c = CHR ''-'' \<or> (\<exists>d<10. c = digit_char d)"
  by (auto simp: show_int_def split: if_splits dest: set_show_nat)

lemma comma_notin_show_int: "CHR '','' \<notin> set (show_int i)"
  by (auto dest!: set_show_int) (metis digit_char_props(6))

lemma comma_notin_show_nat: "CHR '','' \<notin> set (show_nat n)"
  by (metis comma_notin_show_int nat_int show_int_def not_less of_nat_0_le_iff)

lemma hd_show_nat_not_sign: "hd (show_nat n) \<noteq> CHR ''-''" "hd (show_nat n) \<noteq> CHR ''+''"
  using hd_show_nat [of n] digit_char_props(4,5) by metis+

lemma last_show_int_not_space: "\<not> py_isspace (last (show_int i))"
proof -
  have "last (show_int i) = last (show_nat (nat \<bar>i\<bar>))"
    by (simp add: show_int_def)
  with last_show_nat [of "nat \<bar>i\<bar>"] show ?thesis
    by (auto simp: digit_char_props)
qed

lemma py_rstrip_ends_show_int: "py_rstrip (x @ show_int i) = x @ show_int i"
  by (rule py_rstrip_no_space) (simp_all add: last_show_int_not_space)

lemma py_rstrip_show_int [simp]: "py_rstrip (show_int i) = show_int i"
  using py_rstrip_ends_show_int [of "[]" i] by simp

lemma py_int_show_int_space:
  assumes "\<forall>c\<in>set t. py_isspace c"
  shows "py_int (show_int i @ t) = Some i"
proof -
  have strip: "py_strip (show_int i @ t) = show_int i"
    using assms by (simp add: py_strip_trailing_space)
  show ?thesis
  proof (cases "i < 0")
    case True
    then show ?thesis unfolding py_int_def strip by (simp add: show_int_def)
  next
    case False
    obtain c r where cr: "show_nat (nat i) = c # r"
      by (cases "show_nat (nat i)") auto
    with hd_show_nat_not_sign [of "nat i"] have "c \<noteq> CHR ''-''" "c \<noteq> CHR ''+''"
      by simp_all
    moreover have "parse_digits (c # r) = Some (nat i)"
      using parse_digits_show_nat [of "nat i"] cr by simp
    ultimately show ?thesis
      using False cr unfolding py_int_def strip by (simp add: show_int_def)
  qed
qed

lemma py_int_show_int_simp [simp]: "py_int (show_int i) = Some i"
  using py_int_show_int_space [of "[]" i] by simp

lemma py_int_strip: "py_strip s = py_strip s' \<Longrightarrow> py_int s = py_int s'"
  by (simp add: py_int_def)

lemma py_rstrip_Nil_iff: "py_rstrip s = [] \<longleftrightarrow> (\<forall>c\<in>set s. py_isspace c)"
  by (simp add: py_rstrip_def)

lemma py_strip_leading_space:
  assumes "\<forall>c\<in>set p. py_isspace c" and "py_rstrip s \<noteq> []"
  shows "py_strip (p @ s) = py_strip s"
proof -
  have "\<not> (\<forall>c\<in>set s. py_isspace c)"
    using assms(2) by (simp add: py_rstrip_Nil_iff)
  then have "py_rstrip (p @ s) = p @ py_rstrip s"
    by (auto simp: py_rstrip_def dropWhile_append)
  with assms(1) show ?thesis
    by (simp add: py_strip_def py_lstrip_def dropWhile_append)
qed

text \<open>The definitions \<open>int()\<close> unfolds to, for evaluating it on literals by \<open>simp\<close>.\<close>

lemmas py_int_eval = py_int_def py_strip_def py_rstrip_def py_lstrip_def py_isspace_def
  parse_digits_def is_digit_def digit_val_def

text \<open>\<open>int(str(i)) = i\<close>, also with whitespace on both sides.\<close>

lemma py_int_show_int:
  assumes "\<forall>c\<in>set p. py_isspace c" and "\<forall>c\<in>set t. py_isspace c"
  shows "py_int (p @ show_int i @ t) = Some i"
proof -
  have "py_rstrip (show_int i @ t) = show_int i"
    using assms(2) py_rstrip_append_space [of t "show_int i"] by simp
  then have "py_strip (p @ show_int i @ t) = py_strip (show_int i @ t)"
    using assms(1) by (intro py_strip_leading_space) simp_all
  from py_int_strip [OF this] show ?thesis
    using py_int_show_int_space [OF assms(2)] by simp
qed

end
