(* ===== verification/Waveform.thy ===== *)
theory Waveform
  imports Prelude
begin

text \<open>
  The waveform model of \<open>SamplingTest.RunTest\<close> (\<open>src/ADC_Test.py\<close>, lines 182-198 and
  245-289): from the stimulus amplitude \<open>fAMP\<close> and the fixed hardware constants (local
  variables of \<open>RunTest\<close>) it predicts the mean, minimum and maximum ADC count the DUT should
  report. The mean is a loop summing the DAC samples \<open>k = 1 .. iMaxSamples - 1\<close> and
  dividing by \<open>iMaxSamples\<close>; minimum and maximum are the samples at the fixed indices 75
  and 25. Float arithmetic is exact real arithmetic.

  Lemmas: the loop equals the sum it accumulates; the sine terms of that sum cancel, so the
  expected mean is \<open>(iMaxSamples - 1) / iMaxSamples\<close> of the DC offset, independent of the
  amplitude; for 100 samples the indices 75 and 25 are the trough and the crest of every
  sample; bounds of the counts over the amplitude range of the \<open>Amplitudes\<close> enum.
\<close>

section \<open>Data\<close>

text \<open>The enums \<open>Amplitudes\<close> and \<open>Frequencies\<close> (lines 36-42), and their values.\<close>

datatype Amplitudes = Amplitudes_Max | Amplitudes_Min

datatype Frequencies = Frequencies_Max | Frequencies_Min

definition amplitude_value :: "Amplitudes \<Rightarrow> real" where
  "amplitude_value a = (case a of Amplitudes_Max \<Rightarrow> 0.43 | Amplitudes_Min \<Rightarrow> 0.0)"

definition frequency_value :: "Frequencies \<Rightarrow> int" where
  "frequency_value f = (case f of Frequencies_Max \<Rightarrow> 110 | Frequencies_Min \<Rightarrow> 1)"

text \<open>The DUT ADC and controller DAC constants, local variables of \<open>RunTest\<close>.\<close>

record dac_config =
  fGain :: real
  BitRes :: real
  fVrefDAC :: real
  fOffsetDC :: real
  iMaxSamples :: nat

definition runtest_config :: dac_config where
  "runtest_config =
     \<lparr>fGain = 0.17, BitRes = 0.59, fVrefDAC = 3300, fOffsetDC = 0.43, iMaxSamples = 100\<rparr>"

text \<open>The three expected counts \<open>iADCmean\<close>, \<open>iADCpeakMin\<close>, \<open>iADCpeakMax\<close>.\<close>

record expected =
  iADCmean :: int
  iADCpeakMin :: int
  iADCpeakMax :: int

section \<open>Operations\<close>

text \<open>\<open>fDacVal = fAMP*math.sin(k*((2*math.pi)/iMaxSamples)) + fOffsetDC\<close>\<close>

definition dac_sample :: "dac_config \<Rightarrow> real \<Rightarrow> real \<Rightarrow> real" where
  "dac_sample c fAMP k = fAMP * sin (k * ((2 * pi) / real (iMaxSamples c))) + fOffsetDC c"

text \<open>
  \<open>for iSampleDAC in range(i, iMaxSamples): fDACValSum += fDacVal\<close>, from index \<open>i\<close>
  with the running sum \<open>acc\<close>.
\<close>

function dac_sum_loop :: "dac_config \<Rightarrow> real \<Rightarrow> nat \<Rightarrow> real \<Rightarrow> real" where
  "dac_sum_loop c fAMP i acc =
     (if i < iMaxSamples c then dac_sum_loop c fAMP (Suc i) (acc + dac_sample c fAMP (real i))
      else acc)"
  by pat_completeness auto
termination
  by (relation "measure (\<lambda>(c, fAMP, i, acc). iMaxSamples c - i)") auto

declare dac_sum_loop.simps [simp del]

text \<open>
  A DAC value in controller units to an ADC count:
  \<open>fVolt = fDacVal*fVrefDAC; iADC = int(fVolt*fGain/BitRes)\<close>.
\<close>

definition adc_count :: "dac_config \<Rightarrow> real \<Rightarrow> int" where
  "adc_count c v = py_trunc (v * fVrefDAC c * fGain c / BitRes c)"

text \<open>
  The expected values (lines 245-289). The division by \<open>iMaxSamples\<close> and by \<open>BitRes\<close>
  raise \<open>ZeroDivisionError\<close> in Python when the divisor is zero; the mean block runs first.
\<close>

definition computeExpected :: "dac_config \<Rightarrow> real \<Rightarrow> py_error + expected" where
  "computeExpected c fAMP =
     (if iMaxSamples c = 0 then Inl ZeroDivisionError
      else if BitRes c = 0 then Inl ZeroDivisionError
      else Inr \<lparr>iADCmean = adc_count c (dac_sum_loop c fAMP 1 0 / real (iMaxSamples c)),
                iADCpeakMin = adc_count c (dac_sample c fAMP 75),
                iADCpeakMax = adc_count c (dac_sample c fAMP 25)\<rparr>)"

section \<open>The sampling loop\<close>

lemma dac_sum_loop_sum:
  "dac_sum_loop c fAMP i acc = acc + (\<Sum>k = i..<iMaxSamples c. dac_sample c fAMP (real k))"
proof (induction c fAMP i acc rule: dac_sum_loop.induct)
  case (1 c fAMP i acc)
  show ?case
  proof (cases "i < iMaxSamples c")
    case True
    with "1.IH" show ?thesis
      by (simp add: dac_sum_loop.simps [of c fAMP i acc] sum.atLeast_Suc_lessThan)
  next
    case False
    then show ?thesis by (simp add: dac_sum_loop.simps [of c fAMP i acc])
  qed
qed

text \<open>Over a full period the sine samples \<open>k = 1 .. N - 1\<close> cancel in pairs \<open>k, N - k\<close>.\<close>

lemma sin_sum_cancel:
  "(\<Sum>k = 1..<N. sin (real k * ((2 * pi) / real N))) = 0"
proof -
  let ?f = "\<lambda>k::nat. sin (real k * ((2 * pi) / real N))"
  have rev: "(\<Sum>k = 1..<N. ?f k) = (\<Sum>k = 1..<N. ?f (N - k))"
    using sum.atLeastLessThan_rev [of ?f 1 N] by simp
  have neg: "?f (N - k) = - ?f k" if "k \<in> {1..<N}" for k
  proof -
    from that have "real (N - k) * ((2 * pi) / real N) = 2 * pi - real k * ((2 * pi) / real N)"
      by (simp add: of_nat_diff field_simps)
    then show ?thesis by simp
  qed
  have "(\<Sum>k = 1..<N. ?f (N - k)) = (\<Sum>k = 1..<N. - ?f k)"
    by (rule sum.cong [OF refl neg])
  then have "(\<Sum>k = 1..<N. ?f k) = - (\<Sum>k = 1..<N. ?f k)"
    using rev by (simp only: sum_negf)
  then show ?thesis by simp
qed

section \<open>Trough and crest of the reference geometry\<close>

lemma sin_index_75: "sin (75 * ((2 * pi) / 100)) = -1"
proof -
  have "75 * ((2 * pi) / 100) = 3 / 2 * pi" by simp
  then show ?thesis by (simp only: sin_3over2_pi)
qed

lemma sin_index_25: "sin (25 * ((2 * pi) / 100)) = 1"
proof -
  have "25 * ((2 * pi) / 100) = pi / 2" by simp
  then show ?thesis by (simp only: sin_pi_half)
qed

lemma dac_sample_75:
  assumes "iMaxSamples c = 100"
  shows "dac_sample c fAMP 75 = fOffsetDC c - fAMP"
proof -
  have "real (iMaxSamples c) = 100" using assms by simp
  then show ?thesis unfolding dac_sample_def by (simp only: sin_index_75)
qed

lemma dac_sample_25:
  assumes "iMaxSamples c = 100"
  shows "dac_sample c fAMP 25 = fOffsetDC c + fAMP"
proof -
  have "real (iMaxSamples c) = 100" using assms by simp
  then show ?thesis unfolding dac_sample_def by (simp only: sin_index_25)
qed

lemma adc_count_mono:
  "0 \<le> fVrefDAC c \<Longrightarrow> 0 \<le> fGain c \<Longrightarrow> 0 < BitRes c \<Longrightarrow> v \<le> w \<Longrightarrow>
   adc_count c v \<le> adc_count c w"
  unfolding adc_count_def
  by (intro py_trunc_mono divide_right_mono mult_right_mono) simp_all

lemma runtest_config_simps [simp]:
  "fGain runtest_config = 0.17" "BitRes runtest_config = 0.59" "fVrefDAC runtest_config = 3300"
  "fOffsetDC runtest_config = 0.43" "iMaxSamples runtest_config = 100"
  by (simp_all add: runtest_config_def)

lemma adc_count_runtest: "adc_count runtest_config v = py_trunc (v * 3300 * 0.17 / 0.59)"
  by (simp add: adc_count_def)

lemma runtest_config_nonneg [simp]:
  "0 \<le> fVrefDAC runtest_config" "0 \<le> fGain runtest_config" "0 < BitRes runtest_config"
  by simp_all

lemma dac_sum_loop_offset:
  "dac_sum_loop c fAMP 1 0 = real (iMaxSamples c - 1) * fOffsetDC c"
proof -
  let ?N = "iMaxSamples c"
  have "dac_sum_loop c fAMP 1 0 = (\<Sum>k = 1..<?N. dac_sample c fAMP (real k))"
    by (simp add: dac_sum_loop_sum)
  also have "\<dots> = fAMP * (\<Sum>k = 1..<?N. sin (real k * ((2 * pi) / real ?N)))
                   + (\<Sum>k = 1..<?N. fOffsetDC c)"
    by (simp add: dac_sample_def sum.distrib sum_distrib_left)
  also have "\<dots> = real (?N - 1) * fOffsetDC c"
    unfolding sin_sum_cancel by simp
  finally show ?thesis .
qed

lemma computeExpected_closed:
  assumes "iMaxSamples c = 100" and "BitRes c \<noteq> 0"
  shows "computeExpected c fAMP =
           Inr \<lparr>iADCmean = adc_count c (99 / 100 * fOffsetDC c),
                iADCpeakMin = adc_count c (fOffsetDC c - fAMP),
                iADCpeakMax = adc_count c (fOffsetDC c + fAMP)\<rparr>"
  using assms unfolding computeExpected_def dac_sum_loop_offset
  by (simp add: dac_sample_75 dac_sample_25)

lemma computeExpected_runtest_adc:
  "computeExpected runtest_config fAMP =
     Inr \<lparr>iADCmean = 404, iADCpeakMin = adc_count runtest_config (0.43 - fAMP),
          iADCpeakMax = adc_count runtest_config (0.43 + fAMP)\<rparr>"
proof -
  have "adc_count runtest_config (99 / 100 * 0.43) = 404"
    by (simp add: adc_count_runtest py_trunc_eqI)
  then show ?thesis
    by (simp add: computeExpected_closed)
qed

section \<open>Properties of the waveform model\<close>

text \<open>
  C1: The expected mean does not depend on the amplitude: the sampling loop of \<open>RunTest\<close>
  sums the \<open>iMaxSamples - 1\<close> DAC samples \<open>k = 1 .. iMaxSamples - 1\<close>, whose sine parts
  cancel, and divides by \<open>iMaxSamples\<close>, so whenever the computation succeeds the expected
  mean is the count of \<open>(iMaxSamples - 1) / iMaxSamples\<close> of the DC offset, for every
  amplitude and every number of samples (the sample at index 0 is left out of the sum).
\<close>

theorem computeExpected_mean:
  assumes "computeExpected c fAMP = Inr e"
  shows "iADCmean e =
           adc_count c (real (iMaxSamples c - 1) / real (iMaxSamples c) * fOffsetDC c)"
  using assms unfolding computeExpected_def dac_sum_loop_offset by (auto split: if_splits)

text \<open>
  C2: With the constants of \<open>RunTest\<close> (gain 0.17, resolution 0.59 mV, DAC reference
  3300 mV, offset 0.43, 100 samples) the expected mean count is 404 whatever the amplitude,
  and the expected minimum and maximum are the truncated counts of \<open>0.43 - fAMP\<close> and
  \<open>0.43 + fAMP\<close>.
\<close>

theorem computeExpected_runtest:
  "computeExpected runtest_config fAMP =
     Inr \<lparr>iADCmean = 404,
          iADCpeakMin = py_trunc ((0.43 - fAMP) * 3300 * 0.17 / 0.59),
          iADCpeakMax = py_trunc ((0.43 + fAMP) * 3300 * 0.17 / 0.59)\<rparr>"
  by (simp add: computeExpected_runtest_adc adc_count_runtest)

text \<open>
  C3: For 100 samples and a non-negative amplitude, the fixed indices 75 and 25 are the
  trough and the crest of the stimulus: the count of every DAC sample, at any phase, lies
  between the expected minimum and the expected maximum.
\<close>

theorem expected_extremes:
  assumes "iMaxSamples c = 100" and "0 \<le> fVrefDAC c" and "0 \<le> fGain c" and "0 < BitRes c"
    and "0 \<le> fAMP" and "computeExpected c fAMP = Inr e"
  shows "iADCpeakMin e \<le> adc_count c (dac_sample c fAMP k) \<and>
         adc_count c (dac_sample c fAMP k) \<le> iADCpeakMax e"
proof -
  have e: "iADCpeakMin e = adc_count c (fOffsetDC c - fAMP)"
          "iADCpeakMax e = adc_count c (fOffsetDC c + fAMP)"
    using assms(1,4,6) by (auto simp: computeExpected_closed)
  let ?x = "k * ((2 * pi) / real (iMaxSamples c))"
  have "fAMP * sin ?x \<le> fAMP"
    using assms(5) by (simp add: mult_left_le)
  moreover have "fAMP * (- 1) \<le> fAMP * sin ?x"
    using assms(5) by (intro mult_left_mono) simp_all
  ultimately have s: "fOffsetDC c - fAMP \<le> dac_sample c fAMP k"
    "dac_sample c fAMP k \<le> fOffsetDC c + fAMP"
    by (simp_all add: dac_sample_def)
  show ?thesis
    using adc_count_mono [OF assms(2-4) s(1)] adc_count_mono [OF assms(2-4) s(2)] e by simp
qed

text \<open>
  C4: Over the amplitude range of the \<open>Amplitudes\<close> enum (0.0 to 0.43, which equals the DC
  offset) the expected counts stay in the ADC's range: the minimum between 0 and 408, the
  maximum between 408 and 817, and the mean 404.
\<close>

theorem expected_bounds:
  assumes "amplitude_value Amplitudes_Min \<le> fAMP" and "fAMP \<le> amplitude_value Amplitudes_Max"
    and "computeExpected runtest_config fAMP = Inr e"
  shows "0 \<le> iADCpeakMin e \<and> iADCpeakMin e \<le> 408 \<and> 408 \<le> iADCpeakMax e \<and>
         iADCpeakMax e \<le> 817 \<and> iADCmean e = 404"
proof -
  let ?K = "\<lambda>v::real. v * 3300 * 0.17 / 0.59"
  have a: "0 \<le> fAMP" "fAMP \<le> 0.43"
    using assms(1,2) by (simp_all add: amplitude_value_def)
  have e: "iADCpeakMin e = py_trunc (?K (0.43 - fAMP))" "iADCpeakMax e = py_trunc (?K (0.43 + fAMP))"
    "iADCmean e = 404"
    using assms(3) by (auto simp: computeExpected_runtest_adc adc_count_runtest)
  have k: "py_trunc (?K 0) = 0" "py_trunc (?K 0.43) = 408" "py_trunc (?K 0.86) = 817"
    by (simp_all add: py_trunc_eqI)
  have "py_trunc (?K 0) \<le> py_trunc (?K (0.43 - fAMP))"
    using a by (intro py_trunc_mono) simp
  moreover have "py_trunc (?K (0.43 - fAMP)) \<le> py_trunc (?K 0.43)"
    using a by (intro py_trunc_mono) simp
  moreover have "py_trunc (?K 0.43) \<le> py_trunc (?K (0.43 + fAMP))"
    using a by (intro py_trunc_mono) simp
  moreover have "py_trunc (?K (0.43 + fAMP)) \<le> py_trunc (?K 0.86)"
    using a by (intro py_trunc_mono) simp
  ultimately show ?thesis
    using e k by simp
qed

section \<open>Witnesses\<close>

text \<open>The stimulus of the spec's scenario A, amplitude 0.43: expected counts 404, 0 and 817.\<close>

lemma computeExpected_runtest_043:
  "computeExpected runtest_config 0.43 = Inr \<lparr>iADCmean = 404, iADCpeakMin = 0, iADCpeakMax = 817\<rparr>"
  unfolding computeExpected_runtest_adc adc_count_runtest by (simp add: py_trunc_eqI)

theorem computeExpected_mean_witness:
  "computeExpected runtest_config 0.43 = Inr \<lparr>iADCmean = 404, iADCpeakMin = 0, iADCpeakMax = 817\<rparr> \<and>
   (404::int) = adc_count runtest_config (real (100 - 1) / real (100::nat) * 0.43)"
  using computeExpected_mean [OF computeExpected_runtest_043] computeExpected_runtest_043 by simp

theorem expected_extremes_witness:
  "computeExpected runtest_config 0.43 = Inr \<lparr>iADCmean = 404, iADCpeakMin = 0, iADCpeakMax = 817\<rparr> \<and>
   0 \<le> adc_count runtest_config (dac_sample runtest_config 0.43 10) \<and>
   adc_count runtest_config (dac_sample runtest_config 0.43 10) \<le> 817"
  using expected_extremes [of runtest_config "0.43" "\<lparr>iADCmean = 404, iADCpeakMin = 0, iADCpeakMax = 817\<rparr>" 10]
    computeExpected_runtest_043
  by simp

lemma computeExpected_runtest_02:
  "computeExpected runtest_config 0.2 = Inr \<lparr>iADCmean = 404, iADCpeakMin = 218, iADCpeakMax = 599\<rparr>"
  unfolding computeExpected_runtest_adc adc_count_runtest by (simp add: py_trunc_eqI)

theorem expected_bounds_witness:
  "amplitude_value Amplitudes_Min \<le> 0.2 \<and> 0.2 \<le> amplitude_value Amplitudes_Max \<and>
   computeExpected runtest_config 0.2 = Inr \<lparr>iADCmean = 404, iADCpeakMin = 218, iADCpeakMax = 599\<rparr> \<and>
   (0::int) \<le> 218 \<and> (218::int) \<le> 408 \<and> (408::int) \<le> 599 \<and> (599::int) \<le> 817"
proof -
  have a: "amplitude_value Amplitudes_Min \<le> 0.2" "0.2 \<le> amplitude_value Amplitudes_Max"
    by (simp_all add: amplitude_value_def)
  from expected_bounds [OF a computeExpected_runtest_02] a computeExpected_runtest_02 show ?thesis
    by simp
qed

end
