(* ===== verification/Tolerance.thy ===== *)
theory Tolerance
  imports Py_Str Waveform
begin

text \<open>
  The tolerance evaluator of \<open>SamplingTest.RunTest\<close> (\<open>src/ADC_Test.py\<close>, lines 204-219,
  291-357): three dictionaries \<open>{'Max': e + 20, 'Min': e - 20}\<close> around the expected mean,
  minimum and maximum, the six comparisons \<open>int(v) <= Max and int(v) >= Min\<close> of the
  DUT's two readings, each of which first converts the field with \<open>int()\<close> (raising
  \<open>ValueError\<close> on a non-numeric field), and the conjunction of a channel's three checks.

  The abstract contract is the spec's \<open>inBand value expected margin\<close>; the refinement
  lemma shows the dictionaries and comparisons implement it with margin 20.
\<close>

section \<open>Data and operations\<close>

text \<open>A dictionary \<open>{'Max': .., 'Min': ..}\<close> of limits.\<close>

record limits =
  lim_Max :: int
  lim_Min :: int

text \<open>The three dictionaries \<open>ADCMeanLimits\<close>, \<open>ADCMinLimits\<close>, \<open>ADCMaxLimits\<close>.\<close>

record channel_limits =
  ADCMeanLimits :: limits
  ADCMinLimits :: limits
  ADCMaxLimits :: limits

text \<open>A dictionary around an expected count, with the script's fixed margin of 20 counts.\<close>

definition make_limits :: "int \<Rightarrow> limits" where
  "make_limits e = \<lparr>lim_Max = e + 20, lim_Min = e - 20\<rparr>"

text \<open>
  Lines 204-219 build the dictionaries from the initial zero expectations; lines 291-303
  overwrite them from the computed ones.
\<close>

definition initial_limits :: channel_limits where
  "initial_limits =
     \<lparr>ADCMeanLimits = make_limits 0, ADCMinLimits = make_limits 0, ADCMaxLimits = make_limits 0\<rparr>"

definition set_limits :: "expected \<Rightarrow> channel_limits \<Rightarrow> channel_limits" where
  "set_limits e L =
     L\<lparr>ADCMeanLimits := make_limits (iADCmean e), ADCMinLimits := make_limits (iADCpeakMin e),
       ADCMaxLimits := make_limits (iADCpeakMax e)\<rparr>"

text \<open>\<open>v <= L['Max'] and v >= L['Min']\<close>\<close>

definition in_limits :: "int \<Rightarrow> limits \<Rightarrow> bool" where
  "in_limits v L \<longleftrightarrow> v \<le> lim_Max L \<and> v \<ge> lim_Min L"

text \<open>One check of lines 310-345: \<open>int()\<close> of the field, then the comparison.\<close>

definition check_value :: "limits \<Rightarrow> string \<Rightarrow> py_error + bool" where
  "check_value L s = (case py_int s of None \<Rightarrow> Inl (ValueError_int s) | Some v \<Rightarrow> Inr (in_limits v L))"

text \<open>
  A channel's three checks in the order of the source (mean, min, max), and their
  conjunction (lines 347-357).
\<close>

definition evaluate_channel :: "channel_limits \<Rightarrow> string \<times> string \<times> string \<Rightarrow> py_error + bool" where
  "evaluate_channel L r =
     (case r of (mean, mn, mx) \<Rightarrow>
       (case check_value (ADCMeanLimits L) mean of Inl err \<Rightarrow> Inl err | Inr pmean \<Rightarrow>
       (case check_value (ADCMinLimits L) mn of Inl err \<Rightarrow> Inl err | Inr pmin \<Rightarrow>
       (case check_value (ADCMaxLimits L) mx of Inl err \<Rightarrow> Inl err | Inr pmax \<Rightarrow>
         Inr (pmean \<and> pmin \<and> pmax)))))"

text \<open>Both channels, channel 1's checks first; the result is \<open>ADCChannelsResults\<close>.\<close>

definition evaluate_channels ::
  "channel_limits \<Rightarrow> string \<times> string \<times> string \<Rightarrow> string \<times> string \<times> string \<Rightarrow> py_error + bool \<times> bool" where
  "evaluate_channels L r1 r2 =
     (case evaluate_channel L r1 of Inl err \<Rightarrow> Inl err | Inr p1 \<Rightarrow>
     (case evaluate_channel L r2 of Inl err \<Rightarrow> Inl err | Inr p2 \<Rightarrow> Inr (p1, p2)))"

section \<open>Abstract contract\<close>

text \<open>The spec's \<open>inBand(value, expected, margin)\<close>.\<close>

definition inBand :: "int \<Rightarrow> int \<Rightarrow> int \<Rightarrow> bool" where
  "inBand value expected margin \<longleftrightarrow> expected - margin \<le> value \<and> value \<le> expected + margin"

text \<open>A channel passes when all three reported counts are in band around their expectations.\<close>

definition channel_ok :: "expected \<Rightarrow> int \<Rightarrow> int \<Rightarrow> int \<Rightarrow> bool" where
  "channel_ok e mean mn mx \<longleftrightarrow>
     inBand mean (iADCmean e) 20 \<and> inBand mn (iADCpeakMin e) 20 \<and> inBand mx (iADCpeakMax e) 20"

section \<open>Lemmas\<close>

lemma make_limits_simps [simp]:
  "lim_Max (make_limits e) = e + 20" "lim_Min (make_limits e) = e - 20"
  by (simp_all add: make_limits_def)

lemma set_limits_simps [simp]:
  "ADCMeanLimits (set_limits e L) = make_limits (iADCmean e)"
  "ADCMinLimits (set_limits e L) = make_limits (iADCpeakMin e)"
  "ADCMaxLimits (set_limits e L) = make_limits (iADCpeakMax e)"
  by (simp_all add: set_limits_def)

lemma check_value_show_int [simp]:
  "\<forall>c\<in>set t. py_isspace c \<Longrightarrow> check_value L (show_int v @ t) = Inr (in_limits v L)"
  by (simp add: check_value_def py_int_show_int_space)

lemma check_value_show_int' [simp]: "check_value L (show_int v) = Inr (in_limits v L)"
  using check_value_show_int [of "[]" L v] by simp

lemma check_value_Inr: "check_value L s = Inr b \<longleftrightarrow> (\<exists>v. py_int s = Some v \<and> b = in_limits v L)"
  by (auto simp: check_value_def split: option.splits)

lemma check_value_Inl: "check_value L s = Inl err \<longleftrightarrow> py_int s = None \<and> err = ValueError_int s"
  by (auto simp: check_value_def split: option.splits)

lemma in_limits_make_limits [simp]: "in_limits v (make_limits e) \<longleftrightarrow> inBand v e 20"
  by (auto simp: in_limits_def inBand_def)

text \<open>
  C5: Once the dictionaries are set from the expected values, a channel whose three fields
  \<open>int()\<close> accepts evaluates to the spec's verdict: it passes exactly when the mean, the
  minimum and the maximum are each within 20 counts of their expectation (all three
  checks are and-ed, no partial credit).
\<close>

theorem evaluate_channel_refines:
  assumes "py_int mean = Some a" and "py_int mn = Some b" and "py_int mx = Some c"
  shows "evaluate_channel (set_limits e L) (mean, mn, mx) = Inr (channel_ok e a b c)"
  using assms by (simp add: evaluate_channel_def check_value_def channel_ok_def)

text \<open>
  C6: The evaluation of a channel raises exactly when \<open>int()\<close> rejects one of its fields, and
  the \<open>ValueError\<close> names the first rejected field in the order mean, min, max.
\<close>

theorem evaluate_channel_Inl:
  "evaluate_channel L (mean, mn, mx) = Inl err \<longleftrightarrow>
     (py_int mean = None \<and> err = ValueError_int mean) \<or>
     (py_int mean \<noteq> None \<and> py_int mn = None \<and> err = ValueError_int mn) \<or>
     (py_int mean \<noteq> None \<and> py_int mn \<noteq> None \<and> py_int mx = None \<and> err = ValueError_int mx)"
  by (auto simp: evaluate_channel_def check_value_def split: option.splits)

text \<open>
  C16: The band of a limits dictionary is inclusive and exactly 20 counts wide on each side:
  the expected value and the values 20 away pass, the values 21 away fail (the spec's
  \<open>inBand(expected, expected, margin)\<close> and \<open>inBand(expected + margin + 1, ...)\<close> properties).
\<close>

theorem tolerance_band_edges:
  "in_limits e (make_limits e) \<and> in_limits (e + 20) (make_limits e) \<and> in_limits (e - 20) (make_limits e) \<and>
   \<not> in_limits (e + 21) (make_limits e) \<and> \<not> in_limits (e - 21) (make_limits e)"
  by (simp add: in_limits_def)

section \<open>Witnesses\<close>

text \<open>Scenario A of the spec: the reading 409, 0, 817 against the expectation 404, 0, 817.\<close>

theorem evaluate_channel_refines_witness:
  "py_int ''409'' = Some 409 \<and> py_int ''0'' = Some 0 \<and> py_int ''817'' = Some 817 \<and>
   evaluate_channel (set_limits \<lparr>iADCmean = 404, iADCpeakMin = 0, iADCpeakMax = 817\<rparr> initial_limits)
     (''409'', ''0'', ''817'') = Inr True"
proof -
  have p: "py_int ''409'' = Some 409" "py_int ''0'' = Some 0" "py_int ''817'' = Some 817"
    by (simp_all add: py_int_eval)
  from evaluate_channel_refines [OF p] p show ?thesis
    by (simp add: channel_ok_def inBand_def)
qed

theorem evaluate_channel_Inl_witness:
  "evaluate_channel initial_limits (''404'', ''x1'', ''817'') = Inl (ValueError_int ''x1'')"
  using evaluate_channel_Inl [of initial_limits "''404''" "''x1''" "''817''" "ValueError_int ''x1''"]
  by (simp add: py_int_eval)

end
