(* ===== verification/Serial.thy ===== *)
theory Serial
  imports Prelude
begin

text \<open>
  The class \<open>SerialConnecter\<close> (\<open>src/ADC_Test.py\<close>, lines 97-159) and the world it acts
  on. Each pyserial port is a record: whether the object exists yet (\<open>self.ser1\<close> and
  \<open>self.ser2\<close> are attributes created by the open methods), whether the device is present,
  the timeout it was opened with, the lines the device will send (each a complete line
  with its terminator, in order) and the writes made to it. \<open>readline()\<close> returns the next
  line, or \<open>''\<close> when none arrives before the timeout: pyserial raises nothing on a
  timeout. The state of the whole script adds the results log and the seconds slept.

  Lemmas: each method's effect on its port; under every sequence of calls (the step
  relation \<open>serial_step\<close>) opened ports keep their 10 s timeout; over straight-line sequences
  of calls (\<open>serial_seq\<close>) the controller calls behave the same with the DUT calls removed.
\<close>

section \<open>State\<close>

datatype port_status = Unopened | Opened | Closed

record port =
  status :: port_status
  present :: bool
  timeout :: nat
  rx :: "string list"
  tx :: "string list"

text \<open>
  \<open>ser1\<close> is the controller's port, \<open>ser2\<close> the DUT's; \<open>log\<close> holds the lines written to
  \<open>SamplingEngine_Results.log\<close>; \<open>clock\<close> the seconds spent in \<open>time.sleep\<close>.
\<close>

record io_state =
  ser1 :: port
  ser2 :: port
  log :: "string list"
  clock :: int

section \<open>Port operations\<close>

text \<open>\<open>serial.Serial(port, baud, timeout=t)\<close>: fails when the device is missing.\<close>

definition port_open :: "nat \<Rightarrow> port \<Rightarrow> py_error + port" where
  "port_open t p =
     (if present p then Inr (p\<lparr>status := Opened, timeout := t\<rparr>)
      else Inl (SerialException ''could not open port''))"

text \<open>
  Reading the attribute of a port never opened raises \<open>AttributeError\<close>; using a closed
  pyserial port raises its \<open>PortNotOpenError\<close>, a \<open>SerialException\<close>.
\<close>

definition port_check :: "string \<Rightarrow> port \<Rightarrow> py_error + unit" where
  "port_check attr p =
     (case status p of
        Unopened \<Rightarrow> Inl (AttributeError attr)
      | Closed \<Rightarrow> Inl (SerialException ''Attempting to use a port that is not open'')
      | Opened \<Rightarrow> Inr ())"

definition port_readline :: "string \<Rightarrow> port \<Rightarrow> (py_error + string) \<times> port" where
  "port_readline attr p =
     (case port_check attr p of
        Inl err \<Rightarrow> (Inl err, p)
      | Inr _ \<Rightarrow> (case rx p of [] \<Rightarrow> (Inr [], p) | l # ls \<Rightarrow> (Inr l, p\<lparr>rx := ls\<rparr>)))"

definition port_write :: "string \<Rightarrow> string \<Rightarrow> port \<Rightarrow> (py_error + unit) \<times> port" where
  "port_write attr cmd p =
     (case port_check attr p of
        Inl err \<Rightarrow> (Inl err, p)
      | Inr _ \<Rightarrow> (Inr (), p\<lparr>tx := tx p @ [cmd]\<rparr>))"

text \<open>\<open>close()\<close> on a closed pyserial port does nothing.\<close>

definition port_close :: "string \<Rightarrow> port \<Rightarrow> (py_error + unit) \<times> port" where
  "port_close attr p =
     (case status p of
        Unopened \<Rightarrow> (Inl (AttributeError attr), p)
      | _ \<Rightarrow> (Inr (), p\<lparr>status := Closed\<rparr>))"

section \<open>The methods of \<open>SerialConnecter\<close>\<close>

definition openSerialPortCON :: "(io_state, unit) exc" where
  "openSerialPortCON s =
     (case port_open 10 (ser1 s) of Inl err \<Rightarrow> (Inl err, s) | Inr p \<Rightarrow> (Inr (), s\<lparr>ser1 := p\<rparr>))"

definition openSerialPortDUT :: "(io_state, unit) exc" where
  "openSerialPortDUT s =
     (case port_open 10 (ser2 s) of Inl err \<Rightarrow> (Inl err, s) | Inr p \<Rightarrow> (Inr (), s\<lparr>ser2 := p\<rparr>))"

text \<open>
  \<open>SendSerialCON(command, getline)\<close>: the write, then, when \<open>getline\<close> is set, a call of
  \<open>self.ReadLine\<close>, a method the class does not have.
\<close>

definition SendSerialCON :: "string \<Rightarrow> bool \<Rightarrow> (io_state, string) exc" where
  "SendSerialCON command getline s =
     (case port_write ''ser1'' command (ser1 s) of
        (Inl err, p) \<Rightarrow> (Inl err, s\<lparr>ser1 := p\<rparr>)
      | (Inr _, p) \<Rightarrow>
          (if getline then Inl (AttributeError ''ReadLine'') else Inr [], s\<lparr>ser1 := p\<rparr>))"

definition SendSerialDUT :: "string \<Rightarrow> bool \<Rightarrow> (io_state, string) exc" where
  "SendSerialDUT command getline s =
     (case port_write ''ser2'' command (ser2 s) of
        (Inl err, p) \<Rightarrow> (Inl err, s\<lparr>ser2 := p\<rparr>)
      | (Inr _, p) \<Rightarrow>
          (if getline then Inl (AttributeError ''ReadLine'') else Inr [], s\<lparr>ser2 := p\<rparr>))"

definition ReadSerialPortLineCON :: "(io_state, string) exc" where
  "ReadSerialPortLineCON s = (case port_readline ''ser1'' (ser1 s) of (r, p) \<Rightarrow> (r, s\<lparr>ser1 := p\<rparr>))"

definition ReadSerialPortLineDUT :: "(io_state, string) exc" where
  "ReadSerialPortLineDUT s = (case port_readline ''ser2'' (ser2 s) of (r, p) \<Rightarrow> (r, s\<lparr>ser2 := p\<rparr>))"

definition CloseSerialPortCON :: "(io_state, unit) exc" where
  "CloseSerialPortCON s = (case port_close ''ser1'' (ser1 s) of (r, p) \<Rightarrow> (r, s\<lparr>ser1 := p\<rparr>))"

definition CloseSerialPortDUT :: "(io_state, unit) exc" where
  "CloseSerialPortDUT s = (case port_close ''ser2'' (ser2 s) of (r, p) \<Rightarrow> (r, s\<lparr>ser2 := p\<rparr>))"

section \<open>The methods as a step relation\<close>

text \<open>
  The calls a client can make on \<open>SerialConnecter\<close>, one constructor per method, and their
  effect; \<open>serial_step s s'\<close> holds when some call takes the state \<open>s\<close> to \<open>s'\<close>, whether it
  returns or raises.
\<close>

datatype serial_op =
    OpenCON | OpenDUT | SendCON string bool | SendDUT string bool
  | ReadCON | ReadDUT | CloseCON | CloseDUT

fun serial_exec :: "serial_op \<Rightarrow> (io_state, string) exc" where
  "serial_exec OpenCON = ebind openSerialPortCON (\<lambda>_. ereturn [])"
| "serial_exec OpenDUT = ebind openSerialPortDUT (\<lambda>_. ereturn [])"
| "serial_exec (SendCON c g) = SendSerialCON c g"
| "serial_exec (SendDUT c g) = SendSerialDUT c g"
| "serial_exec ReadCON = ReadSerialPortLineCON"
| "serial_exec ReadDUT = ReadSerialPortLineDUT"
| "serial_exec CloseCON = ebind CloseSerialPortCON (\<lambda>_. ereturn [])"
| "serial_exec CloseDUT = ebind CloseSerialPortDUT (\<lambda>_. ereturn [])"

inductive serial_step :: "io_state \<Rightarrow> io_state \<Rightarrow> bool" where
  exec: "serial_exec op s = (r, s') \<Longrightarrow> serial_step s s'"

inductive_cases serial_stepE: "serial_step s s'"

text \<open>
  The methods that act on the controller port \<open>ser1\<close>, and a straight-line sequence of
  calls as the script makes them: each in turn, the first exception ending the sequence.
\<close>

fun con_op :: "serial_op \<Rightarrow> bool" where
  "con_op OpenCON = True"
| "con_op (SendCON c g) = True"
| "con_op ReadCON = True"
| "con_op CloseCON = True"
| "con_op _ = False"

fun serial_seq :: "serial_op list \<Rightarrow> (io_state, string list) exc" where
  "serial_seq [] = ereturn []"
| "serial_seq (op # ops) = ebind (serial_exec op) (\<lambda>r. ebind (serial_seq ops) (\<lambda>rs. ereturn (r # rs)))"

text \<open>An opened (or closed) port was opened with the timeout of 10 seconds of version 1.0.\<close>

definition port_timeout_ok :: "port \<Rightarrow> bool" where
  "port_timeout_ok p \<longleftrightarrow> (status p \<noteq> Unopened \<longrightarrow> timeout p = 10)"

section \<open>Lemmas\<close>

lemma port_check_Opened [simp]: "status p = Opened \<Longrightarrow> port_check attr p = Inr ()"
  by (simp add: port_check_def)

lemma ReadSerialPortLineDUT_Cons [simp]:
  "status (ser2 s) = Opened \<Longrightarrow> rx (ser2 s) = l # ls \<Longrightarrow>
   ReadSerialPortLineDUT s = (Inr l, s\<lparr>ser2 := (ser2 s)\<lparr>rx := ls\<rparr>\<rparr>)"
  by (simp add: ReadSerialPortLineDUT_def port_readline_def)

lemma ReadSerialPortLineDUT_timeout [simp]:
  "status (ser2 s) = Opened \<Longrightarrow> rx (ser2 s) = [] \<Longrightarrow> ReadSerialPortLineDUT s = (Inr [], s)"
  by (simp add: ReadSerialPortLineDUT_def port_readline_def)

lemma ReadSerialPortLineCON_Cons [simp]:
  "status (ser1 s) = Opened \<Longrightarrow> rx (ser1 s) = l # ls \<Longrightarrow>
   ReadSerialPortLineCON s = (Inr l, s\<lparr>ser1 := (ser1 s)\<lparr>rx := ls\<rparr>\<rparr>)"
  by (simp add: ReadSerialPortLineCON_def port_readline_def)

lemma ReadSerialPortLineCON_timeout [simp]:
  "status (ser1 s) = Opened \<Longrightarrow> rx (ser1 s) = [] \<Longrightarrow> ReadSerialPortLineCON s = (Inr [], s)"
  by (simp add: ReadSerialPortLineCON_def port_readline_def)

lemma SendSerialCON_Opened [simp]:
  "status (ser1 s) = Opened \<Longrightarrow>
   SendSerialCON cmd False s = (Inr [], s\<lparr>ser1 := (ser1 s)\<lparr>tx := tx (ser1 s) @ [cmd]\<rparr>\<rparr>)"
  by (simp add: SendSerialCON_def port_write_def)

lemma open_ports [simp]:
  "present (ser1 s) \<Longrightarrow>
   openSerialPortCON s = (Inr (), s\<lparr>ser1 := (ser1 s)\<lparr>status := Opened, timeout := 10\<rparr>\<rparr>)"
  "present (ser2 s) \<Longrightarrow>
   openSerialPortDUT s = (Inr (), s\<lparr>ser2 := (ser2 s)\<lparr>status := Opened, timeout := 10\<rparr>\<rparr>)"
  by (simp_all add: openSerialPortCON_def openSerialPortDUT_def port_open_def)

lemma close_ports_Opened [simp]:
  "status (ser1 s) = Opened \<Longrightarrow> CloseSerialPortCON s = (Inr (), s\<lparr>ser1 := (ser1 s)\<lparr>status := Closed\<rparr>\<rparr>)"
  "status (ser2 s) = Opened \<Longrightarrow> CloseSerialPortDUT s = (Inr (), s\<lparr>ser2 := (ser2 s)\<lparr>status := Closed\<rparr>\<rparr>)"
  by (simp_all add: CloseSerialPortCON_def CloseSerialPortDUT_def port_close_def)

lemma serial_step_timeout:
  assumes "serial_step s s'" and "port_timeout_ok (ser1 s)" and "port_timeout_ok (ser2 s)"
  shows "port_timeout_ok (ser1 s') \<and> port_timeout_ok (ser2 s')"
  using assms(1)
proof cases
  case (exec op r)
  with assms(2,3) show ?thesis
    by (cases op)
       (auto simp: openSerialPortCON_def openSerialPortDUT_def SendSerialCON_def SendSerialDUT_def
         ReadSerialPortLineCON_def ReadSerialPortLineDUT_def CloseSerialPortCON_def
         CloseSerialPortDUT_def port_open_def port_write_def port_readline_def port_close_def
         port_timeout_ok_def ebind_apply split: sum.splits list.splits prod.splits if_splits
         port_status.splits)
qed

lemma serial_exec_con:
  assumes "con_op op"
  shows "ser2 (snd (serial_exec op s)) = ser2 s"
    and "serial_exec op (s\<lparr>ser2 := q\<rparr>) = map_prod id (\<lambda>t. t\<lparr>ser2 := q\<rparr>) (serial_exec op s)"
  using assms
  by (cases op; simp add: ebind_apply openSerialPortCON_def port_open_def SendSerialCON_def port_write_def
        ReadSerialPortLineCON_def port_readline_def CloseSerialPortCON_def port_close_def
        split: sum.splits prod.splits list.splits port_status.splits)+

lemma serial_exec_dut:
  "\<not> con_op op \<Longrightarrow> snd (serial_exec op s) = s\<lparr>ser2 := ser2 (snd (serial_exec op s))\<rparr>"
  by (cases op; simp add: ebind_apply openSerialPortDUT_def port_open_def SendSerialDUT_def port_write_def
        ReadSerialPortLineDUT_def port_readline_def CloseSerialPortDUT_def port_close_def
        split: sum.splits prod.splits list.splits port_status.splits)

lemma serial_seq_con_ser2:
  "\<forall>op\<in>set ops. con_op op \<Longrightarrow>
   serial_seq ops (s\<lparr>ser2 := q\<rparr>) = map_prod id (\<lambda>t. t\<lparr>ser2 := q\<rparr>) (serial_seq ops s)"
proof (induction ops arbitrary: s)
  case (Cons op ops)
  then show ?case
    using serial_exec_con(2) [where op=op and s=s and q=q]
    by (cases "serial_exec op s") (auto simp: ebind_apply split: sum.splits prod.splits)
qed simp

section \<open>Properties of the methods\<close>

text \<open>
  C14: The ports keep the timeout they were opened with: if every port that is not
  unopened has the timeout of 10 seconds, this stays true under every sequence of calls,
  since both open methods of version 1.0 use 10 seconds.
\<close>

theorem serial_run_timeout:
  assumes "serial_step\<^sup>*\<^sup>* s s'" and "port_timeout_ok (ser1 s)" and "port_timeout_ok (ser2 s)"
  shows "port_timeout_ok (ser1 s') \<and> port_timeout_ok (ser2 s')"
  using assms
  by (induction rule: rtranclp_induct) (auto dest: serial_step_timeout)

text \<open>
  C17: \<open>SendSerialCON(command, getline=True)\<close> writes the command and then raises
  \<open>AttributeError\<close>: the method it calls, \<open>self.ReadLine\<close>, does not exist in the class.
\<close>

theorem SendSerialCON_getline:
  assumes "status (ser1 s) = Opened"
  shows "SendSerialCON c True s = (Inl (AttributeError ''ReadLine''), s\<lparr>ser1 := (ser1 s)\<lparr>tx := tx (ser1 s) @ [c]\<rparr>\<rparr>)"
  using assms by (simp add: SendSerialCON_def port_write_def)

text \<open>
  C21: The controller and DUT channels are independent. If a sequence of calls returns
  normally, the controller calls alone, in the same order and without the DUT calls
  interleaved between them, return the same results and leave the controller port, the log
  and the clock in the same state, with the DUT port untouched.
\<close>

theorem serial_seq_controller_independent:
  assumes "serial_seq ops s = (Inr rs, s')"
  shows "serial_seq (filter con_op ops) s =
           (Inr (map snd (filter (\<lambda>p. con_op (fst p)) (zip ops rs))), s'\<lparr>ser2 := ser2 s\<rparr>)"
  using assms
proof (induction ops arbitrary: s rs)
  case Nil
  then show ?case by simp
next
  case (Cons op ops)
  obtain r s1 rs' where ex: "serial_exec op s = (Inr r, s1)" and run: "serial_seq ops s1 = (Inr rs', s')"
    and rs: "rs = r # rs'"
    using Cons.prems by (auto simp: ebind_apply split: sum.splits prod.splits)
  note IH = Cons.IH [OF run]
  show ?case
  proof (cases "con_op op")
    case True
    have "ser2 s1 = ser2 s" using serial_exec_con(1) [OF True, of s] ex by simp
    then show ?thesis using True ex IH rs by (simp add: ebind_apply)
  next
    case False
    have s1: "s1\<lparr>ser2 := ser2 s\<rparr> = s"
      using serial_exec_dut [OF False, of s] ex by (metis io_state.surjective io_state.update_convs(2) snd_conv)
    have "serial_seq (filter con_op ops) (s1\<lparr>ser2 := ser2 s\<rparr>) =
          (Inr (map snd (filter (\<lambda>p. con_op (fst p)) (zip ops rs'))), s'\<lparr>ser2 := ser2 s\<rparr>)"
      using IH serial_seq_con_ser2 [where ops="filter con_op ops" and s=s1 and q="ser2 s"] by simp
    then show ?thesis using False rs s1 by simp
  qed
qed

section \<open>Witnesses\<close>

lemma serial_run_example:
  "serial_step\<^sup>*\<^sup>*
     \<lparr>ser1 = \<lparr>status = Unopened, present = True, timeout = 0, rx = [], tx = []\<rparr>,
      ser2 = \<lparr>status = Unopened, present = True, timeout = 0, rx = [''a'', ''b''], tx = []\<rparr>,
      log = [], clock = 0\<rparr>
     \<lparr>ser1 = \<lparr>status = Unopened, present = True, timeout = 0, rx = [], tx = []\<rparr>,
      ser2 = \<lparr>status = Opened, present = True, timeout = 10, rx = [''b''], tx = []\<rparr>,
      log = [], clock = 0\<rparr>"
proof -
  have "serial_step
     \<lparr>ser1 = \<lparr>status = Unopened, present = True, timeout = 0, rx = [], tx = []\<rparr>,
      ser2 = \<lparr>status = Unopened, present = True, timeout = 0, rx = [''a'', ''b''], tx = []\<rparr>,
      log = [], clock = 0\<rparr>
     \<lparr>ser1 = \<lparr>status = Unopened, present = True, timeout = 0, rx = [], tx = []\<rparr>,
      ser2 = \<lparr>status = Opened, present = True, timeout = 10, rx = [''a'', ''b''], tx = []\<rparr>,
      log = [], clock = 0\<rparr>"
    by (rule serial_step.exec [where op = OpenDUT and r = "Inr []"])
       (simp add: openSerialPortDUT_def port_open_def)
  moreover have "serial_step
     \<lparr>ser1 = \<lparr>status = Unopened, present = True, timeout = 0, rx = [], tx = []\<rparr>,
      ser2 = \<lparr>status = Opened, present = True, timeout = 10, rx = [''a'', ''b''], tx = []\<rparr>,
      log = [], clock = 0\<rparr>
     \<lparr>ser1 = \<lparr>status = Unopened, present = True, timeout = 0, rx = [], tx = []\<rparr>,
      ser2 = \<lparr>status = Opened, present = True, timeout = 10, rx = [''b''], tx = []\<rparr>,
      log = [], clock = 0\<rparr>"
    by (rule serial_step.exec [where op = ReadDUT and r = "Inr ''a''"])
       (simp add: ReadSerialPortLineDUT_def port_readline_def)
  ultimately show ?thesis by simp
qed

theorem serial_run_timeout_witness:
  "port_timeout_ok \<lparr>status = Unopened, present = True, timeout = 0, rx = [], tx = []\<rparr> \<and>
   port_timeout_ok \<lparr>status = Opened, present = True, timeout = 10, rx = [''b''], tx = []\<rparr>"
  using serial_run_timeout [OF serial_run_example] by (simp add: port_timeout_ok_def)

theorem SendSerialCON_getline_witness:
  "SendSerialCON ''2,0.43,50'' True
     \<lparr>ser1 = \<lparr>status = Opened, present = True, timeout = 10, rx = [''OK''], tx = []\<rparr>, ser2 = \<lparr>status = Unopened, present = True, timeout = 0, rx = [], tx = []\<rparr>, log = [], clock = 0\<rparr> =
   (Inl (AttributeError ''ReadLine''),
     \<lparr>ser1 = \<lparr>status = Opened, present = True, timeout = 10, rx = [''OK''], tx = [''2,0.43,50'']\<rparr>, ser2 = \<lparr>status = Unopened, present = True, timeout = 0, rx = [], tx = []\<rparr>, log = [], clock = 0\<rparr>)"
  using SendSerialCON_getline [of "\<lparr>ser1 = \<lparr>status = Opened, present = True, timeout = 10, rx = [''OK''], tx = []\<rparr>, ser2 = \<lparr>status = Unopened, present = True, timeout = 0, rx = [], tx = []\<rparr>, log = [], clock = 0\<rparr>" "''2,0.43,50''"]
  by simp

theorem serial_seq_controller_independent_witness:
  "serial_seq (filter con_op [OpenDUT, OpenCON, SendCON ''2,0.43,50'' False, ReadDUT, ReadCON]) \<lparr>ser1 = \<lparr>status = Unopened, present = True, timeout = 0, rx = [''OK''], tx = []\<rparr>, ser2 = \<lparr>status = Unopened, present = True, timeout = 0, rx = [''r1''], tx = []\<rparr>, log = [], clock = 0\<rparr> =
   (Inr [[], [], ''OK''],
    \<lparr>ser1 = \<lparr>status = Opened, present = True, timeout = 10, rx = [], tx = [''2,0.43,50'']\<rparr>,
     ser2 = \<lparr>status = Unopened, present = True, timeout = 0, rx = [''r1''], tx = []\<rparr>, log = [], clock = 0\<rparr>)"
  using serial_seq_controller_independent [of "[OpenDUT, OpenCON, SendCON ''2,0.43,50'' False, ReadDUT, ReadCON]" "\<lparr>ser1 = \<lparr>status = Unopened, present = True, timeout = 0, rx = [''OK''], tx = []\<rparr>, ser2 = \<lparr>status = Unopened, present = True, timeout = 0, rx = [''r1''], tx = []\<rparr>, log = [], clock = 0\<rparr>" "[[], [], [], ''r1'', ''OK'']"
      "\<lparr>ser1 = \<lparr>status = Opened, present = True, timeout = 10, rx = [], tx = [''2,0.43,50'']\<rparr>,
       ser2 = \<lparr>status = Opened, present = True, timeout = 10, rx = [], tx = []\<rparr>, log = [], clock = 0\<rparr>"]
  by (simp add: ebind_apply)

end
