(* ===== verification/Sampling_Test.thy ===== *)
theory Sampling_Test
  imports Tolerance Serial
begin

text \<open>
  \<open>SamplingTest.RunTest\<close> (\<open>src/ADC_Test.py\<close>, lines 179-376) and the small helpers of the
  class \<open>SamplingTest\<close> (lines 383-408). \<open>RunTest\<close> reads two lines from the DUT, splits
  each at commas into exactly five fields (a tuple assignment: any other number raises
  \<open>ValueError\<close>), computes the expected counts (theory \<open>Waveform\<close>), sets the limit
  dictionaries and evaluates both channels (theory \<open>Tolerance\<close>). The stimulus command is
  not sent here: \<open>LoopAndLog\<close> sends it once, before the first call.

  Lemmas: on two well-formed DUT lines \<open>RunTest\<close> consumes exactly those lines and returns
  the spec's verdict for each channel; a timeout or a line with the wrong number of fields
  raises \<open>ValueError\<close> for the whole call, so neither channel gets a verdict; the channel
  field of the lines is never read, so channels are assigned by arrival order.
\<close>

section \<open>Operations\<close>

text \<open>
  \<open>Header, ADC_Channel, ADC_Mean, ADC_Min, ADC_Max = fields\<close>: a tuple assignment that
  needs exactly five values.
\<close>

definition unpack5 :: "string list \<Rightarrow> py_error + string \<times> string \<times> string \<times> string \<times> string" where
  "unpack5 xs =
     (case xs of [a, b, c, d, e] \<Rightarrow> Inr (a, b, c, d, e) | _ \<Rightarrow> Inl (ValueError_unpack (length xs)))"

text \<open>
  Lines 221-230 and 245-376. The first line is right-stripped before it is split, the
  second is not; in both the last field is right-stripped.
\<close>

definition RunTest :: "real \<Rightarrow> (io_state, bool \<times> bool) exc" where
  "RunTest fAMP =
     ebind ReadSerialPortLineDUT (\<lambda>received_data.
     ebind (elift (unpack5 (py_split (CHR '','') (py_rstrip received_data))))
       (\<lambda>(Header1, ADC_Channel1, ADC_Mean1, ADC_Min1, ADC_Max1).
     ebind ReadSerialPortLineDUT (\<lambda>received_data.
     ebind (elift (unpack5 (py_split (CHR '','') received_data)))
       (\<lambda>(Header2, ADC_Channel2, ADC_Mean2, ADC_Min2, ADC_Max2).
     ebind (elift (computeExpected runtest_config fAMP)) (\<lambda>e.
     elift (evaluate_channels (set_limits e initial_limits)
              (ADC_Mean1, ADC_Min1, py_rstrip ADC_Max1)
              (ADC_Mean2, ADC_Min2, py_rstrip ADC_Max2)))))))"

text \<open>
  The command-line arguments \<open>-i\<close> and \<open>-m\<close> (\<open>None\<close> when absent). In Python 2
  \<open>None > 0\<close> is false, so an absent argument takes the default.
\<close>

record cli_args =
  interval :: "int option"
  maxtest :: "int option"

definition CheckMaxTests :: "cli_args \<Rightarrow> int" where
  "CheckMaxTests args =
     (case maxtest args of Some m \<Rightarrow> if m > 0 then m else 20 | None \<Rightarrow> 20)"

definition CheckInterval :: "cli_args \<Rightarrow> int" where
  "CheckInterval args =
     (case interval args of Some i \<Rightarrow> if i > 0 then i else 1 | None \<Rightarrow> 1)"

text \<open>\<open>CalculateMean\<close> (lines 383-389) has the body of \<open>CheckInterval\<close>; nothing calls it.\<close>

definition CalculateMean :: "cli_args \<Rightarrow> int" where
  "CalculateMean args =
     (case interval args of Some i \<Rightarrow> if i > 0 then i else 1 | None \<Rightarrow> 1)"

section \<open>The DUT's reading lines\<close>

text \<open>
  A reading line as the DUT sends it: \<open><header>,<channel>,<mean>,<min>,<max>\<close> and CR LF.
  (A description of the input, not code of the script.)
\<close>

definition crlf :: string where
  "crlf = [CHR 0x0D, CHR 0x0A]"

definition dut_line :: "string \<Rightarrow> string \<Rightarrow> int \<Rightarrow> int \<Rightarrow> int \<Rightarrow> string" where
  "dut_line h ch mean mn mx =
     h @ CHR '','' # ch @ CHR '','' # show_int mean @ CHR '','' # show_int mn @ CHR '','' #
     show_int mx @ crlf"

section \<open>Lemmas\<close>

lemma crlf_space: "\<forall>c\<in>set crlf. py_isspace c"
  by (simp add: crlf_def)

lemma comma_notin_crlf: "CHR '','' \<notin> set crlf"
  by (simp add: crlf_def)

lemma py_rstrip_show_int_crlf [simp]: "py_rstrip (show_int i @ crlf) = show_int i"
  using py_rstrip_append_space [OF crlf_space, of "show_int i"] py_rstrip_ends_show_int [of "[]" i]
  by simp

lemma py_split_dut_line:
  assumes "CHR '','' \<notin> set h" and "CHR '','' \<notin> set ch"
  shows "py_split (CHR '','') (dut_line h ch mean mn mx) =
           [h, ch, show_int mean, show_int mn, show_int mx @ crlf]"
  using assms
  by (simp add: dut_line_def py_split_sep_free_prefix comma_notin_show_int comma_notin_crlf
      py_split_no_sep)

lemma py_rstrip_dut_line:
  "py_rstrip (dut_line h ch mean mn mx) =
     h @ CHR '','' # ch @ CHR '','' # show_int mean @ CHR '','' # show_int mn @ CHR '','' # show_int mx"
proof -
  let ?b = "h @ CHR '','' # ch @ CHR '','' # show_int mean @ CHR '','' # show_int mn @ CHR '','' #
    show_int mx"
  have "dut_line h ch mean mn mx = ?b @ crlf"
    by (simp add: dut_line_def)
  moreover have "py_rstrip ?b = ?b"
    using py_rstrip_ends_show_int [of "h @ CHR '','' # ch @ CHR '','' # show_int mean @ CHR '','' #
       show_int mn @ [CHR '','']" mx] by simp
  ultimately show ?thesis
    using py_rstrip_append_space [OF crlf_space, of ?b] by simp
qed

lemma py_split_rstrip_dut_line:
  assumes "CHR '','' \<notin> set h" and "CHR '','' \<notin> set ch"
  shows "py_split (CHR '','') (py_rstrip (dut_line h ch mean mn mx)) =
           [h, ch, show_int mean, show_int mn, show_int mx]"
  using assms
  by (simp add: py_rstrip_dut_line py_split_sep_free_prefix comma_notin_show_int py_split_no_sep)

lemma unpack5_Inr [simp]: "unpack5 [a, b, c, d, e] = Inr (a, b, c, d, e)"
  by (simp add: unpack5_def)

lemma unpack5_Inl: "length xs \<noteq> 5 \<Longrightarrow> unpack5 xs = Inl (ValueError_unpack (length xs))"
  by (auto simp: unpack5_def split: list.splits)

lemma py_int_show_int_crlf [simp]: "py_int (show_int i @ crlf) = Some i"
  using py_int_show_int_space [OF crlf_space, of i] by simp

lemma evaluate_channels_show_int:
  "evaluate_channels (set_limits e L) (show_int a1, show_int b1, show_int x1)
     (show_int a2, show_int b2, show_int x2) =
   Inr (channel_ok e a1 b1 x1, channel_ok e a2 b2 x2)"
  by (simp add: evaluate_channels_def evaluate_channel_def channel_ok_def)

lemma RunTest_unfold:
  "RunTest fAMP s =
     (case ReadSerialPortLineDUT s of
        (Inl err, s1) \<Rightarrow> (Inl err, s1)
      | (Inr l1, s1) \<Rightarrow>
          (case unpack5 (py_split (CHR '','') (py_rstrip l1)) of
             Inl err \<Rightarrow> (Inl err, s1)
           | Inr (_, _, mean1, min1, max1) \<Rightarrow>
               (case ReadSerialPortLineDUT s1 of
                  (Inl err, s2) \<Rightarrow> (Inl err, s2)
                | (Inr l2, s2) \<Rightarrow>
                    (case unpack5 (py_split (CHR '','') l2) of
                       Inl err \<Rightarrow> (Inl err, s2)
                     | Inr (_, _, mean2, min2, max2) \<Rightarrow>
                         (case computeExpected runtest_config fAMP of
                            Inl err \<Rightarrow> (Inl err, s2)
                          | Inr e \<Rightarrow>
                              (evaluate_channels (set_limits e initial_limits)
                                 (mean1, min1, py_rstrip max1) (mean2, min2, py_rstrip max2), s2))))))"
  by (simp add: RunTest_def ebind_apply split: prod.splits sum.splits)

lemma RunTest_first_malformed:
  assumes "status (ser2 s) = Opened" and "rx (ser2 s) = l # rest"
    and "length (py_split (CHR '','') (py_rstrip l)) \<noteq> 5"
  shows "RunTest a s = (Inl (ValueError_unpack (length (py_split (CHR '','') (py_rstrip l)))),
                        s\<lparr>ser2 := (ser2 s)\<lparr>rx := rest\<rparr>\<rparr>)"
  using assms by (simp add: RunTest_unfold unpack5_Inl)

text \<open>
  C7: When the DUT port is open and the next two lines are well-formed readings (five
  comma-separated fields, the counts printed as integers), \<open>RunTest\<close> consumes exactly
  these two lines, touches nothing else, and returns for each channel the spec's verdict:
  its mean, minimum and maximum each within 20 counts of the expectation.
\<close>

theorem RunTest_readings:
  assumes "status (ser2 s) = Opened"
    and "rx (ser2 s) = dut_line h1 c1 a1 b1 x1 # dut_line h2 c2 a2 b2 x2 # rest"
    and "\<forall>w\<in>set [h1, c1, h2, c2]. CHR '','' \<notin> set w"
    and "computeExpected runtest_config fAMP = Inr e"
  shows "RunTest fAMP s =
           (Inr (channel_ok e a1 b1 x1, channel_ok e a2 b2 x2), s\<lparr>ser2 := (ser2 s)\<lparr>rx := rest\<rparr>\<rparr>)"
  using assms
  by (simp add: RunTest_unfold py_split_rstrip_dut_line py_split_dut_line evaluate_channels_show_int)

lemma empty_line_unpack [simp]: "unpack5 [[]] = Inl (ValueError_unpack 1)"
  "unpack5 (py_split c (py_rstrip [])) = Inl (ValueError_unpack 1)"
  by (simp_all add: unpack5_def py_rstrip_def)

lemma RunTest_no_line:
  "status (ser2 s) = Opened \<Longrightarrow> rx (ser2 s) = [] \<Longrightarrow> RunTest a s = (Inl (ValueError_unpack 1), s)"
  by (simp add: RunTest_unfold)

text \<open>
  C8: A DUT timeout is not a separate condition: \<open>readline()\<close> returns the empty string,
  whose split has one field, and the tuple assignment raises \<open>ValueError\<close> (1 value where
  5 are needed); on the first line nothing is consumed, on the second the first line is.
\<close>

theorem RunTest_timeout:
  assumes "status (ser2 s) = Opened"
  shows "(rx (ser2 s) = [] \<longrightarrow> RunTest fAMP s = (Inl (ValueError_unpack 1), s)) \<and>
         (rx (ser2 s) = [dut_line h c a b x] \<and> CHR '','' \<notin> set h \<and> CHR '','' \<notin> set c \<longrightarrow>
          RunTest fAMP s = (Inl (ValueError_unpack 1), s\<lparr>ser2 := (ser2 s)\<lparr>rx := []\<rparr>\<rparr>))"
  using assms by (auto simp: RunTest_unfold py_split_rstrip_dut_line)

text \<open>
  C9: A second reading line that does not split into exactly five fields makes the whole
  \<open>RunTest\<close> raise \<open>ValueError\<close>, even when the first line is a well-formed reading: the
  verdict for channel 1 is lost with it, and both lines are consumed.
\<close>

theorem RunTest_second_malformed:
  assumes "status (ser2 s) = Opened"
    and "rx (ser2 s) = dut_line h c a b x # l2 # rest"
    and "CHR '','' \<notin> set h" and "CHR '','' \<notin> set c"
    and "length (py_split (CHR '','') l2) \<noteq> 5"
  shows "RunTest fAMP s =
           (Inl (ValueError_unpack (length (py_split (CHR '','') l2))),
            s\<lparr>ser2 := (ser2 s)\<lparr>rx := rest\<rparr>\<rparr>)"
  using assms
  by (simp add: RunTest_unfold py_split_rstrip_dut_line unpack5_Inl)

text \<open>
  C20: The channel field of a reading line is never looked at: whatever the headers and
  channel identifiers of the two lines say (any comma-free text, even the two identifiers
  swapped), \<open>RunTest\<close> gives the same outcome; the first line read is judged as channel 1
  and the second as channel 2, by arrival order. (The spec asks implementations to match
  readings by their \<open>channelId\<close>.)
\<close>

theorem RunTest_channel_ignored:
  assumes "\<forall>w\<in>set [h1, c1, h2, c2, h1', c1', h2', c2']. CHR '','' \<notin> set w"
    and "rx (ser2 s) = dut_line h1 c1 a1 b1 x1 # dut_line h2 c2 a2 b2 x2 # rest"
  shows "fst (RunTest a s) =
         fst (RunTest a (s\<lparr>ser2 := (ser2 s)\<lparr>rx := dut_line h1' c1' a1 b1 x1 # dut_line h2' c2' a2 b2 x2 # rest\<rparr>\<rparr>))"
  using assms
  by (cases "status (ser2 s)")
     (simp_all add: RunTest_unfold ReadSerialPortLineDUT_def port_readline_def port_check_def
       py_split_rstrip_dut_line py_split_dut_line)

section \<open>Witnesses\<close>

text \<open>
  Scenarios A and B of the spec at amplitude 0.43 (expected 404, 0, 817): channel 1 reports
  409, 0, 817 and passes; channel 2 reports a mean of 445, 41 above, and fails.
\<close>

theorem RunTest_readings_witness:
  "RunTest 0.43
     \<lparr>ser1 = \<lparr>status = Opened, present = True, timeout = 10, rx = [], tx = []\<rparr>,
      ser2 = \<lparr>status = Opened, present = True, timeout = 10,
        rx = [dut_line ''ADC'' ''1'' 409 0 817, dut_line ''ADC'' ''2'' 445 0 817], tx = []\<rparr>, log = [], clock = 0\<rparr> =
   (Inr (True, False),
    \<lparr>ser1 = \<lparr>status = Opened, present = True, timeout = 10, rx = [], tx = []\<rparr>,
      ser2 = \<lparr>status = Opened, present = True, timeout = 10, rx = [], tx = []\<rparr>,
      log = [], clock = 0\<rparr>)"
  using RunTest_readings [of "\<lparr>ser1 = \<lparr>status = Opened, present = True, timeout = 10, rx = [], tx = []\<rparr>,
      ser2 = \<lparr>status = Opened, present = True, timeout = 10,
        rx = [dut_line ''ADC'' ''1'' 409 0 817, dut_line ''ADC'' ''2'' 445 0 817], tx = []\<rparr>, log = [], clock = 0\<rparr>"
      "''ADC''" "''1''" 409 0 817 "''ADC''" "''2''" 445 0 817 "[]" "0.43"
      "\<lparr>iADCmean = 404, iADCpeakMin = 0, iADCpeakMax = 817\<rparr>"] computeExpected_runtest_043
  by (simp add: channel_ok_def inBand_def)

theorem RunTest_timeout_witness:
  "RunTest 0.43 \<lparr>ser1 = \<lparr>status = Opened, present = True, timeout = 10, rx = [], tx = []\<rparr>,
      ser2 = \<lparr>status = Opened, present = True, timeout = 10, rx = [], tx = []\<rparr>,
      log = [], clock = 0\<rparr> =
     (Inl (ValueError_unpack 1), \<lparr>ser1 = \<lparr>status = Opened, present = True, timeout = 10, rx = [], tx = []\<rparr>,
      ser2 = \<lparr>status = Opened, present = True, timeout = 10, rx = [], tx = []\<rparr>,
      log = [], clock = 0\<rparr>) \<and>
   RunTest 0.43 \<lparr>ser1 = \<lparr>status = Opened, present = True, timeout = 10, rx = [], tx = []\<rparr>,
      ser2 = \<lparr>status = Opened, present = True, timeout = 10, rx = [dut_line ''ADC'' ''1'' 409 0 817], tx = []\<rparr>,
      log = [], clock = 0\<rparr> =
     (Inl (ValueError_unpack 1), \<lparr>ser1 = \<lparr>status = Opened, present = True, timeout = 10, rx = [], tx = []\<rparr>,
      ser2 = \<lparr>status = Opened, present = True, timeout = 10, rx = [], tx = []\<rparr>,
      log = [], clock = 0\<rparr>)"
  using RunTest_timeout [of "\<lparr>ser1 = \<lparr>status = Opened, present = True, timeout = 10, rx = [], tx = []\<rparr>,
      ser2 = \<lparr>status = Opened, present = True, timeout = 10, rx = [], tx = []\<rparr>,
      log = [], clock = 0\<rparr>" "0.43" "''ADC''" "''1''" 409 0 817]
    RunTest_timeout [of "\<lparr>ser1 = \<lparr>status = Opened, present = True, timeout = 10, rx = [], tx = []\<rparr>,
      ser2 = \<lparr>status = Opened, present = True, timeout = 10, rx = [dut_line ''ADC'' ''1'' 409 0 817], tx = []\<rparr>,
      log = [], clock = 0\<rparr>"
      "0.43" "''ADC''" "''1''" 409 0 817]
  by simp

text \<open>Scenario C of the spec: the second line \<open>ADC,2,404,0\<close> has four fields.\<close>

theorem RunTest_second_malformed_witness:
  "RunTest 0.43 \<lparr>ser1 = \<lparr>status = Opened, present = True, timeout = 10, rx = [], tx = []\<rparr>,
      ser2 = \<lparr>status = Opened, present = True, timeout = 10, rx = [dut_line ''ADC'' ''1'' 409 0 817, ''ADC,2,404,0'' @ crlf], tx = []\<rparr>,
      log = [], clock = 0\<rparr> =
     (Inl (ValueError_unpack 4), \<lparr>ser1 = \<lparr>status = Opened, present = True, timeout = 10, rx = [], tx = []\<rparr>,
      ser2 = \<lparr>status = Opened, present = True, timeout = 10, rx = [], tx = []\<rparr>,
      log = [], clock = 0\<rparr>)"
  using RunTest_second_malformed [of "\<lparr>ser1 = \<lparr>status = Opened, present = True, timeout = 10, rx = [], tx = []\<rparr>,
      ser2 = \<lparr>status = Opened, present = True, timeout = 10, rx = [dut_line ''ADC'' ''1'' 409 0 817, ''ADC,2,404,0'' @ crlf], tx = []\<rparr>,
      log = [], clock = 0\<rparr>"
      "''ADC''" "''1''" 409 0 817 "''ADC,2,404,0'' @ crlf" "[]" "0.43"]
  by (simp add: crlf_def)

theorem RunTest_channel_ignored_witness:
  "fst (RunTest 0.43 \<lparr>ser1 = \<lparr>status = Opened, present = True, timeout = 10, rx = [], tx = []\<rparr>,
      ser2 = \<lparr>status = Opened, present = True, timeout = 10,
        rx = [dut_line ''ADC'' ''1'' 409 0 817, dut_line ''ADC'' ''2'' 445 0 817], tx = []\<rparr>,
      log = [], clock = 0\<rparr>) =
   fst (RunTest 0.43 \<lparr>ser1 = \<lparr>status = Opened, present = True, timeout = 10, rx = [], tx = []\<rparr>,
      ser2 = \<lparr>status = Opened, present = True, timeout = 10,
        rx = [dut_line ''ADC'' ''2'' 409 0 817, dut_line ''ADC'' ''1'' 445 0 817], tx = []\<rparr>,
      log = [], clock = 0\<rparr>)"
  using RunTest_channel_ignored [of "''ADC''" "''1''" "''ADC''" "''2''" "''ADC''" "''2''" "''ADC''" "''1''"
      "\<lparr>ser1 = \<lparr>status = Opened, present = True, timeout = 10, rx = [], tx = []\<rparr>,
      ser2 = \<lparr>status = Opened, present = True, timeout = 10,
        rx = [dut_line ''ADC'' ''1'' 409 0 817, dut_line ''ADC'' ''2'' 445 0 817], tx = []\<rparr>,
      log = [], clock = 0\<rparr>" 409 0 817 445 0 817 "[]" "0.43"]
  by simp

end
