(* ===== verification/Runner.thy ===== *)
theory Runner
  imports Sampling_Test
begin

text \<open>
  The test loop \<open>LoopAndLog\<close> (\<open>src/ADC_Test.py\<close>, lines 414-492) and \<open>main\<close> (lines
  499-535). The globals \<open>main\<close> sets from \<open>InputParse.GetInput\<close> are the record \<open>config\<close>;
  the local variables of \<open>LoopAndLog\<close> are the record \<open>loop_state\<close>. One iteration of the
  \<open>for\<close> loop is \<open>loop_body\<close>: on the first iteration only, it reads two DUT lines, sends
  the stimulus command and reads the controller's reply (which is not checked); then it
  calls \<open>RunTest\<close>, updates the pass counters and pass rates, logs one line per channel and
  sleeps. An exception anywhere ends the whole run: nothing in the script catches it.

  \<open>str(fAMP)\<close>, the runtime's rendering of the amplitude float, is not modelled: it is the
  field \<open>str_fAMP\<close> of the configuration. \<open>print\<close> output is not modelled.
\<close>

section \<open>State\<close>

text \<open>The globals of \<open>main\<close> (the values \<open>GetInput\<close> returns, and \<open>args\<close>).\<close>

record config =
  DUT_PORT :: string
  DUT_BAUD :: int
  uC_PORT :: string
  uC_BAUD :: int
  fAMP :: real
  FREQ :: int
  args :: cli_args
  str_fAMP :: string

text \<open>The local variables of \<open>LoopAndLog\<close> that the loop updates.\<close>

record loop_state =
  testCounter :: nat
  PassCounterChannel1 :: nat
  PassCounterChannel2 :: nat
  SuccessStatChannel1 :: real
  SuccessStatChannel2 :: real
  TestBegin :: bool

definition init_loop_state :: loop_state where
  "init_loop_state =
     \<lparr>testCounter = 1, PassCounterChannel1 = 0, PassCounterChannel2 = 0,
      SuccessStatChannel1 = 0, SuccessStatChannel2 = 0, TestBegin = True\<rparr>"

section \<open>Operations\<close>

text \<open>\<open>MESSAGE_PING = '2,' + str(fAMP) + ',' + str(FREQ) + '\r'\<close> (line 446).\<close>

definition MESSAGE_PING :: "config \<Rightarrow> string" where
  "MESSAGE_PING g = ''2,'' @ str_fAMP g @ '','' @ show_int (FREQ g) @ [CHR 0x0D]"

text \<open>Lines 452-458, run on the first iteration only.\<close>

definition first_handshake :: "config \<Rightarrow> (io_state, unit) exc" where
  "first_handshake g =
     ebind ReadSerialPortLineDUT (\<lambda>_.
     ebind ReadSerialPortLineDUT (\<lambda>_.
     ebind (SendSerialCON (MESSAGE_PING g) False) (\<lambda>_.
     ebind ReadSerialPortLineCON (\<lambda>_. ereturn ()))))"

text \<open>
  \<open>logging.info('Test %d,Passed,%d', ...)\<close> and \<open>'Test %d, Failed,%d'\<close>: \<open>%d\<close> of the
  float pass rate truncates it.
\<close>

definition log_line :: "nat \<Rightarrow> bool \<Rightarrow> real \<Rightarrow> string" where
  "log_line n passed stat =
     ''Test '' @ show_nat n @ (if passed then '',Passed,'' else '', Failed,'') @ show_int (py_trunc stat)"

text \<open>
  The counter updates of lines 465-484: a channel's pass counter grows when it passed, and
  its pass rate is recomputed as \<open>100.0 * PassCounter / testCounter\<close>.
\<close>

definition tally :: "nat \<Rightarrow> bool \<times> bool \<Rightarrow> loop_state \<Rightarrow> loop_state" where
  "tally n r ls =
     (let p1 = (if fst r then Suc (PassCounterChannel1 ls) else PassCounterChannel1 ls);
          p2 = (if snd r then Suc (PassCounterChannel2 ls) else PassCounterChannel2 ls)
      in ls\<lparr>testCounter := n, PassCounterChannel1 := p1, PassCounterChannel2 := p2,
            SuccessStatChannel1 := 100 * real p1 / real n,
            SuccessStatChannel2 := 100 * real p2 / real n\<rparr>)"

text \<open>One iteration of the loop, lines 445-486, with \<open>w\<close> the sleep in seconds.\<close>

definition loop_body :: "config \<Rightarrow> int \<Rightarrow> nat \<Rightarrow> loop_state \<Rightarrow> (io_state, loop_state) exc" where
  "loop_body g w n ls =
     ebind (if TestBegin ls then ebind (first_handshake g) (\<lambda>_. ereturn (ls\<lparr>TestBegin := False\<rparr>))
            else ereturn ls) (\<lambda>ls1.
     ebind (RunTest (fAMP g)) (\<lambda>r.
     ebind (emodify (\<lambda>s. s\<lparr>log := log s @
              [log_line n (fst r) (SuccessStatChannel1 (tally n r ls1)),
               log_line n (snd r) (SuccessStatChannel2 (tally n r ls1))]\<rparr>)) (\<lambda>_.
     ebind (emodify (\<lambda>s. s\<lparr>clock := clock s + w\<rparr>)) (\<lambda>_.
     ereturn (tally n r ls1)))))"

text \<open>\<open>for testCounter in range(1, MAX_TEST+1)\<close>, over the list of counter values.\<close>

fun run_tests :: "config \<Rightarrow> int \<Rightarrow> nat list \<Rightarrow> loop_state \<Rightarrow> (io_state, loop_state) exc" where
  "run_tests g w [] ls = ereturn ls"
| "run_tests g w (n # ns) ls = ebind (loop_body g w n ls) (\<lambda>ls'. run_tests g w ns ls')"

definition LoopAndLog :: "config \<Rightarrow> (io_state, unit) exc" where
  "LoopAndLog g =
     ebind (emodify (\<lambda>s. s\<lparr>log := log s @ [''Tests Started - Device COM port '' @ DUT_PORT g]\<rparr>)) (\<lambda>_.
     (let TEST_WAIT_PERIOD_SECONDS = CheckInterval (args g);
          MAX_TEST = CheckMaxTests (args g)
      in ebind openSerialPortCON (\<lambda>_.
         ebind openSerialPortDUT (\<lambda>_.
         ebind (run_tests g TEST_WAIT_PERIOD_SECONDS [1..<nat MAX_TEST + 1] init_loop_state) (\<lambda>_.
         ebind CloseSerialPortCON (\<lambda>_.
         ebind CloseSerialPortDUT (\<lambda>_.
         emodify (\<lambda>s. s\<lparr>log := log s @ [''Finished'']\<rparr>))))))))"

text \<open>\<open>main\<close>: the argument parsing and console output are not modelled; it runs the loop.\<close>

definition main :: "config \<Rightarrow> (io_state, unit) exc" where
  "main g = LoopAndLog g"

section \<open>Abstract session statistics\<close>

text \<open>
  The counters a run should end with, given the sequence of channel results: the number
  of iterations and the passes of each channel.
\<close>

definition passes1 :: "(bool \<times> bool) list \<Rightarrow> nat" where
  "passes1 rs = length (filter fst rs)"

definition passes2 :: "(bool \<times> bool) list \<Rightarrow> nat" where
  "passes2 rs = length (filter snd rs)"

fun tally_list :: "nat list \<Rightarrow> (bool \<times> bool) list \<Rightarrow> loop_state \<Rightarrow> loop_state" where
  "tally_list (n # ns) (r # rs) ls = tally_list ns rs (tally n r ls)"
| "tally_list _ _ ls = ls"

text \<open>
  The spec's results sink: for iteration \<open>k + 1\<close> one record per channel with the iteration
  number, the channel's verdict and its pass rate \<open>100 * passCount / iterationsRun\<close> over the
  first \<open>k + 1\<close> results, recomputed from scratch, in the line format of the script.
\<close>

definition session_records :: "(bool \<times> bool) list \<Rightarrow> string list" where
  "session_records vs =
     concat (map (\<lambda>k. [log_line (Suc k) (fst (vs ! k)) (100 * real (passes1 (take (Suc k) vs)) / real (Suc k)),
                       log_line (Suc k) (snd (vs ! k)) (100 * real (passes2 (take (Suc k) vs)) / real (Suc k))])
       [0..<length vs])"

text \<open>The same records produced incrementally from iteration \<open>n\<close> and pass counts \<open>p1\<close>, \<open>p2\<close>.\<close>

fun results_log :: "nat \<Rightarrow> nat \<Rightarrow> nat \<Rightarrow> (bool \<times> bool) list \<Rightarrow> string list" where
  "results_log n p1 p2 [] = []"
| "results_log n p1 p2 (v # vs) =
     (let q1 = (if fst v then Suc p1 else p1); q2 = (if snd v then Suc p2 else p2)
      in log_line n (fst v) (100 * real q1 / real n) # log_line n (snd v) (100 * real q2 / real n) #
         results_log (Suc n) q1 q2 vs)"

section \<open>The DUT's input over a session\<close>

text \<open>
  A reading: header, channel id, mean, minimum, maximum. The DUT sends it as one line;
  a session's input is a pair of readings per iteration. (Descriptions of the input.)
\<close>

type_synonym reading = "string \<times> string \<times> int \<times> int \<times> int"

definition reading_line :: "reading \<Rightarrow> string" where
  "reading_line r = (case r of (h, ch, a, b, c) \<Rightarrow> dut_line h ch a b c)"

definition reading_ok :: "reading \<Rightarrow> bool" where
  "reading_ok r = (case r of (h, ch, _) \<Rightarrow> CHR '','' \<notin> set h \<and> CHR '','' \<notin> set ch)"

definition reading_verdict :: "expected \<Rightarrow> reading \<Rightarrow> bool" where
  "reading_verdict e r = (case r of (_, _, a, b, c) \<Rightarrow> channel_ok e a b c)"

definition pair_lines :: "reading \<times> reading \<Rightarrow> string list" where
  "pair_lines p = [reading_line (fst p), reading_line (snd p)]"

definition pair_verdict :: "expected \<Rightarrow> reading \<times> reading \<Rightarrow> bool \<times> bool" where
  "pair_verdict e p = (reading_verdict e (fst p), reading_verdict e (snd p))"

section \<open>Lemmas on the loop state\<close>

lemma tally_simps [simp]:
  "testCounter (tally n r ls) = n"
  "TestBegin (tally n r ls) = TestBegin ls"
  "PassCounterChannel1 (tally n r ls) =
     (if fst r then Suc (PassCounterChannel1 ls) else PassCounterChannel1 ls)"
  "PassCounterChannel2 (tally n r ls) =
     (if snd r then Suc (PassCounterChannel2 ls) else PassCounterChannel2 ls)"
  "SuccessStatChannel1 (tally n r ls) = 100 * real (PassCounterChannel1 (tally n r ls)) / real n"
  "SuccessStatChannel2 (tally n r ls) = 100 * real (PassCounterChannel2 (tally n r ls)) / real n"
  by (simp_all add: tally_def Let_def)

lemma tally_TestBegin: "tally n r (ls\<lparr>TestBegin := b\<rparr>) = (tally n r ls)\<lparr>TestBegin := b\<rparr>"
  by (simp add: tally_def Let_def)

lemma tally_list_TestBegin:
  "tally_list ns rs (ls\<lparr>TestBegin := b\<rparr>) = (tally_list ns rs ls)\<lparr>TestBegin := b\<rparr>"
  by (induction ns rs ls rule: tally_list.induct) (simp_all add: tally_TestBegin)

lemma tally_list_counts:
  "length rs = length ns \<Longrightarrow> ns \<noteq> [] \<Longrightarrow>
   testCounter (tally_list ns rs ls) = last ns \<and>
   PassCounterChannel1 (tally_list ns rs ls) = PassCounterChannel1 ls + passes1 rs \<and>
   PassCounterChannel2 (tally_list ns rs ls) = PassCounterChannel2 ls + passes2 rs \<and>
   SuccessStatChannel1 (tally_list ns rs ls) =
     100 * real (PassCounterChannel1 (tally_list ns rs ls)) / real (last ns) \<and>
   SuccessStatChannel2 (tally_list ns rs ls) =
     100 * real (PassCounterChannel2 (tally_list ns rs ls)) / real (last ns)"
proof (induction ns rs ls rule: tally_list.induct)
  case (1 n ns r rs ls)
  show ?case
  proof (cases "ns = []")
    case True
    with "1.prems" show ?thesis by (simp add: passes1_def passes2_def)
  next
    case False
    with "1.IH" "1.prems" show ?thesis by (simp add: passes1_def passes2_def)
  qed
qed simp_all

lemma init_loop_state_simps [simp]:
  "PassCounterChannel1 init_loop_state = 0" "PassCounterChannel2 init_loop_state = 0"
  "TestBegin init_loop_state"
  by (simp_all add: init_loop_state_def)

lemma last_upt_from_1: "0 < m \<Longrightarrow> last [1..<m + 1] = m"
  by simp

section \<open>Properties of the loop\<close>

text \<open>
  C11: Scenario D of the spec: over 20 iterations in which channel 1 passes 18 times, its
  pass rate after the last iteration is 90 percent.
\<close>

theorem tally_list_scenario_D:
  assumes "length rs = 20" and "passes1 rs = 18"
  shows "SuccessStatChannel1 (tally_list [1..<21] rs init_loop_state) = 90"
proof -
  have "length rs = length [1..<21]" "[1..<21] \<noteq> []"
    using assms(1) by simp_all
  from tally_list_counts [OF this, of init_loop_state] assms(2) show ?thesis
    by simp
qed

section \<open>Witnesses\<close>

theorem tally_list_scenario_D_witness:
  "length (replicate 18 (True, True) @ replicate 2 (False, False)) = 20 \<and>
   passes1 (replicate 18 (True, True) @ replicate 2 (False, False)) = 18 \<and>
   SuccessStatChannel1
     (tally_list [1..<21] (replicate 18 (True, True) @ replicate 2 (False, False)) init_loop_state) = 90"
  using tally_list_scenario_D [of "replicate 18 (True, True) @ replicate 2 (False, False)"]
  by (simp add: passes1_def)

end
