(* ===== verification/Session.thy ===== *)
theory Session
  imports Runner
begin

text \<open>
  Whole sessions of \<open>LoopAndLog\<close> (\<open>src/ADC_Test.py\<close>, lines 414-492) against a DUT whose
  input is described by the readings it sends (\<open>reading\<close>, \<open>pair_lines\<close> of theory
  \<open>Runner\<close>). The lemmas compose the handshake, one \<open>RunTest\<close> per iteration and the
  tally into the exact state a session ends in (\<open>run_tests_session\<close>,
  \<open>LoopAndLog_session\<close>); from it: the loop's statistics are those of the readings
  (C10), the session completes and closes both ports (C12), its
  log is the spec's results sink (C15), and a malformed reading ends it early (C13). The
  error paths at session level: a missing device (C18) and a DUT that stays silent after
  its start-up lines (C19), both through \<open>LoopAndLog_first_RunTest_Inl\<close>, the run that
  stops in the first call of \<open>RunTest\<close>.
\<close>

section \<open>Runs on a well-behaved DUT\<close>

lemma computeExpected_runtest_Inr: "\<exists>e. computeExpected runtest_config a = Inr e"
  by (simp add: computeExpected_def)

lemma concat_pair_lines_Cons [simp]:
  "concat (map pair_lines (p # ps)) = reading_line (fst p) # reading_line (snd p) # concat (map pair_lines ps)"
  by (simp add: pair_lines_def)

lemma RunTest_reading_pair:
  assumes "status (ser2 s) = Opened" and "rx (ser2 s) = reading_line r1 # reading_line r2 # rest"
    and "reading_ok r1" and "reading_ok r2" and "computeExpected runtest_config a = Inr e"
  shows "RunTest a s = (Inr (reading_verdict e r1, reading_verdict e r2),
                        s\<lparr>ser2 := (ser2 s)\<lparr>rx := rest\<rparr>\<rparr>)"
  using assms
  by (cases r1, cases r2)
     (simp add: reading_line_def reading_ok_def reading_verdict_def RunTest_unfold
       py_split_rstrip_dut_line py_split_dut_line evaluate_channels_show_int)

lemma first_handshake_ok:
  assumes "status (ser1 s) = Opened" and "status (ser2 s) = Opened"
    and "rx (ser2 s) = b1 # b2 # rest"
  shows "first_handshake g s =
           (Inr (), s\<lparr>ser2 := (ser2 s)\<lparr>rx := rest\<rparr>,
                     ser1 := (ser1 s)\<lparr>tx := tx (ser1 s) @ [MESSAGE_PING g], rx := tl (rx (ser1 s))\<rparr>\<rparr>)"
  using assms
  by (cases "rx (ser1 s)") (simp_all add: first_handshake_def ebind_apply)

lemma run_tests_TestBegin:
  assumes "TestBegin ls" and "first_handshake g s = (Inr (), s1)" and "ns \<noteq> []"
  shows "run_tests g w ns ls s = run_tests g w ns (ls\<lparr>TestBegin := False\<rparr>) s1"
  using assms
  by (cases ns) (simp_all add: loop_body_def ebind_apply)

lemma upt_add_Suc: "[n..<n + Suc k] = n # [Suc n..<Suc n + k]"
  by (simp add: upt_conv_Cons)

lemma run_tests_session:
  assumes "status (ser2 s) = Opened" and "\<not> TestBegin ls"
    and "rx (ser2 s) = concat (map pair_lines ps) @ rest"
    and "\<forall>p\<in>set ps. reading_ok (fst p) \<and> reading_ok (snd p)"
    and "computeExpected runtest_config (fAMP g) = Inr e" and "ns = [n..<n + length ps]"
  shows "run_tests g w ns ls s =
           (Inr (tally_list ns (map (pair_verdict e) ps) ls), s\<lparr>ser2 := (ser2 s)\<lparr>rx := rest\<rparr>,
              log := log s @ results_log n (PassCounterChannel1 ls) (PassCounterChannel2 ls)
                               (map (pair_verdict e) ps),
              clock := clock s + w * int (length ps)\<rparr>)"
  using assms(1-4,6)
proof (induction ps arbitrary: n ns ls s)
  case Nil
  then show ?case by simp
next
  case (Cons p ps)
  let ?r = "pair_verdict e p"
  let ?s1 = "s\<lparr>ser2 := (ser2 s)\<lparr>rx := concat (map pair_lines ps) @ rest\<rparr>\<rparr>"
  have rt: "RunTest (fAMP g) s = (Inr ?r, ?s1)"
    using Cons.prems(1,3,4) assms(5) unfolding pair_verdict_def
    by (intro RunTest_reading_pair) (auto simp: pair_lines_def [of p])
  let ?s2 = "?s1\<lparr>log := log s @ [log_line n (fst ?r) (SuccessStatChannel1 (tally n ?r ls)),
                                  log_line n (snd ?r) (SuccessStatChannel2 (tally n ?r ls))],
                  clock := clock s + w\<rparr>"
  have body: "loop_body g w n ls s = (Inr (tally n ?r ls), ?s2)"
    using Cons.prems(2) rt by (simp add: loop_body_def ebind_apply)
  have "run_tests g w [Suc n..<Suc n + length ps] (tally n ?r ls) ?s2 =
          (Inr (tally_list [Suc n..<Suc n + length ps] (map (pair_verdict e) ps) (tally n ?r ls)),
           ?s2\<lparr>ser2 := (ser2 ?s2)\<lparr>rx := rest\<rparr>,
             log := log ?s2 @ results_log (Suc n) (PassCounterChannel1 (tally n ?r ls))
                                (PassCounterChannel2 (tally n ?r ls)) (map (pair_verdict e) ps),
             clock := clock ?s2 + w * int (length ps)\<rparr>)"
    using Cons.prems(1,2,4) by (intro Cons.IH) simp_all
  moreover have "ns = n # [Suc n..<Suc n + length ps]"
    using Cons.prems(5) by (simp only: length_Cons upt_add_Suc)
  ultimately show ?case
    using body by (simp add: Let_def distrib_left add.assoc split del: if_split)
qed

lemma LoopAndLog_Inr:
  assumes "openSerialPortCON (s\<lparr>log := log s @ [''Tests Started - Device COM port '' @ DUT_PORT g]\<rparr>) = (Inr (), s1)"
    and "openSerialPortDUT s1 = (Inr (), s2)"
    and "run_tests g (CheckInterval (args g)) [1..<nat (CheckMaxTests (args g)) + 1] init_loop_state s2 = (Inr ls, s3)"
    and "CloseSerialPortCON s3 = (Inr (), s4)" and "CloseSerialPortDUT s4 = (Inr (), s5)"
  shows "LoopAndLog g s = (Inr (), s5\<lparr>log := log s5 @ [''Finished'']\<rparr>)"
  unfolding LoopAndLog_def Let_def by (simp only: ebind_apply emodify_apply assms sum.case prod.case)

lemma LoopAndLog_Inl:
  assumes "openSerialPortCON (s\<lparr>log := log s @ [''Tests Started - Device COM port '' @ DUT_PORT g]\<rparr>) = (Inr (), s1)"
    and "openSerialPortDUT s1 = (Inr (), s2)"
    and "run_tests g (CheckInterval (args g)) [1..<nat (CheckMaxTests (args g)) + 1] init_loop_state s2 = (Inl e, s3)"
  shows "LoopAndLog g s = (Inl e, s3)"
  unfolding LoopAndLog_def Let_def by (simp only: ebind_apply emodify_apply assms sum.case prod.case)

lemma run_tests_first_Inl:
  assumes "TestBegin ls" and "first_handshake g s = (Inr (), s1)"
    and "RunTest (fAMP g) s1 = (Inl e, s2)"
  shows "run_tests g w (n # ns) ls s = (Inl e, s2)"
  using assms by (simp add: loop_body_def ebind_apply)

lemma CheckMaxTests_pos: "0 < CheckMaxTests a"
  by (simp add: CheckMaxTests_def split: option.splits)

lemma first_handshake_any:
  assumes "status (ser1 s) = Opened" and "status (ser2 s) = Opened"
  shows "first_handshake g s =
           (Inr (), s\<lparr>ser2 := (ser2 s)\<lparr>rx := drop 2 (rx (ser2 s))\<rparr>,
                     ser1 := (ser1 s)\<lparr>tx := tx (ser1 s) @ [MESSAGE_PING g], rx := tl (rx (ser1 s))\<rparr>\<rparr>)"
  using assms
  by (cases "rx (ser1 s)"; cases "rx (ser2 s)"; cases "tl (rx (ser2 s))")
     (simp_all add: first_handshake_def ebind_apply)

lemma LoopAndLog_first_RunTest_Inl:
  assumes "present (ser1 s)" and "present (ser2 s)"
    and "RunTest (fAMP g)
           (s\<lparr>log := log s @ [''Tests Started - Device COM port '' @ DUT_PORT g],
              ser2 := (ser2 s)\<lparr>status := Opened, timeout := 10, rx := drop 2 (rx (ser2 s))\<rparr>,
              ser1 := (ser1 s)\<lparr>status := Opened, timeout := 10, tx := tx (ser1 s) @ [MESSAGE_PING g],
                               rx := tl (rx (ser1 s))\<rparr>\<rparr>) = (Inl e, s4)"
  shows "LoopAndLog g s = (Inl e, s4)"
proof -
  obtain s0 where s0: "s0 = s\<lparr>log := log s @ [''Tests Started - Device COM port '' @ DUT_PORT g]\<rparr>"
    by blast
  have s0f: "ser1 s0 = ser1 s" "ser2 s0 = ser2 s"
    unfolding s0 by simp_all
  define s1 where "s1 = s0\<lparr>ser1 := (ser1 s0)\<lparr>status := Opened, timeout := 10\<rparr>\<rparr>"
  define s2 where "s2 = s1\<lparr>ser2 := (ser2 s1)\<lparr>status := Opened, timeout := 10\<rparr>\<rparr>"
  have o1: "openSerialPortCON s0 = (Inr (), s1)" and o2: "openSerialPortDUT s1 = (Inr (), s2)"
    using assms(1,2) s0f by (simp_all add: s1_def s2_def)
  have hs: "first_handshake g s2 =
    (Inr (), s2\<lparr>ser2 := (ser2 s2)\<lparr>rx := drop 2 (rx (ser2 s2))\<rparr>,
                ser1 := (ser1 s2)\<lparr>tx := tx (ser1 s2) @ [MESSAGE_PING g], rx := tl (rx (ser1 s2))\<rparr>\<rparr>)"
    by (intro first_handshake_any) (simp_all add: s2_def s1_def)
  have rt: "RunTest (fAMP g)
    (s2\<lparr>ser2 := (ser2 s2)\<lparr>rx := drop 2 (rx (ser2 s2))\<rparr>,
        ser1 := (ser1 s2)\<lparr>tx := tx (ser1 s2) @ [MESSAGE_PING g], rx := tl (rx (ser1 s2))\<rparr>\<rparr>) = (Inl e, s4)"
    using assms(3) unfolding s2_def s1_def s0 by simp
  have "[1..<nat (CheckMaxTests (args g)) + 1] = 1 # [Suc 1..<nat (CheckMaxTests (args g)) + 1]"
    using CheckMaxTests_pos [of "args g"] by (intro upt_conv_Cons) simp
  then have "run_tests g (CheckInterval (args g)) [1..<nat (CheckMaxTests (args g)) + 1] init_loop_state s2 =
      (Inl e, s4)"
    using run_tests_first_Inl [OF init_loop_state_simps(3) hs rt, of "CheckInterval (args g)" 1
      "[Suc 1..<nat (CheckMaxTests (args g)) + 1]"] by (simp only:)
  from LoopAndLog_Inl [OF o1 [unfolded s0] o2 this] show ?thesis .
qed

lemma length_results_log [simp]: "length (results_log n p1 p2 vs) = 2 * length vs"
  by (induction vs arbitrary: n p1 p2) (simp_all add: Let_def)

lemma upt_0_Suc_map: "[0..<Suc l] = 0 # map Suc [0..<l]"
  by (simp add: map_Suc_upt upt_conv_Cons)

lemma passes_Nil [simp]: "passes1 [] = 0" "passes2 [] = 0"
  by (simp_all add: passes1_def passes2_def)

lemma passes_Cons [simp]:
  "passes1 (v # vs) = (if fst v then Suc (passes1 vs) else passes1 vs)"
  "passes2 (v # vs) = (if snd v then Suc (passes2 vs) else passes2 vs)"
  by (simp_all add: passes1_def passes2_def)

lemma results_log_indexed:
  "results_log n p1 p2 vs =
     concat (map (\<lambda>k. [log_line (n + k) (fst (vs ! k)) (100 * real (p1 + passes1 (take (Suc k) vs)) / real (n + k)),
                       log_line (n + k) (snd (vs ! k)) (100 * real (p2 + passes2 (take (Suc k) vs)) / real (n + k))])
       [0..<length vs])"
proof (induction vs arbitrary: n p1 p2)
  case (Cons v vs)
  have "[0..<length (v # vs)] = 0 # map Suc [0..<length vs]"
    by (simp only: length_Cons upt_0_Suc_map)
  then show ?case
    by (simp add: Cons.IH Let_def comp_def ac_simps del: upt_Suc)
qed simp

lemma results_log_session_records: "results_log 1 0 0 vs = session_records vs"
  by (simp add: results_log_indexed session_records_def)


lemma LoopAndLog_session:
  assumes "present (ser1 s)" and "present (ser2 s)"
    and "rx (ser2 s) = b1 # b2 # concat (map pair_lines ps) @ rest"
    and "length ps = nat (CheckMaxTests (args g))"
    and "\<forall>p\<in>set ps. reading_ok (fst p) \<and> reading_ok (snd p)"
    and "computeExpected runtest_config (fAMP g) = Inr e"
  shows "\<exists>s'. LoopAndLog g s = (Inr (), s') \<and>
           status (ser1 s') = Closed \<and> status (ser2 s') = Closed \<and>
           tx (ser1 s') = tx (ser1 s) @ [MESSAGE_PING g] \<and> rx (ser2 s') = rest \<and>
           log s' = log s @ [''Tests Started - Device COM port '' @ DUT_PORT g] @
                    results_log 1 0 0 (map (pair_verdict e) ps) @ [''Finished''] \<and>
           clock s' = clock s + CheckInterval (args g) * CheckMaxTests (args g)"
proof -
  let ?w = "CheckInterval (args g)" and ?m = "nat (CheckMaxTests (args g))"
  define ns where "ns = [1..<?m + 1]"
  have nsne: "ns \<noteq> []" and nsps: "ns = [1..<1 + length ps]"
    using CheckMaxTests_pos [of "args g"] assms(4) by (simp_all add: ns_def)
  obtain s0 where s0: "s0 = s\<lparr>log := log s @ [''Tests Started - Device COM port '' @ DUT_PORT g]\<rparr>"
    by blast
  have s0f: "ser1 s0 = ser1 s" "ser2 s0 = ser2 s"
    "log s0 = log s @ [''Tests Started - Device COM port '' @ DUT_PORT g]" "clock s0 = clock s"
    unfolding s0 by simp_all
  define s1 where "s1 = s0\<lparr>ser1 := (ser1 s0)\<lparr>status := Opened, timeout := 10\<rparr>\<rparr>"
  define s2 where "s2 = s1\<lparr>ser2 := (ser2 s1)\<lparr>status := Opened, timeout := 10\<rparr>\<rparr>"
  define s3 where "s3 = s2\<lparr>ser2 := (ser2 s2)\<lparr>rx := concat (map pair_lines ps) @ rest\<rparr>,
                  ser1 := (ser1 s2)\<lparr>tx := tx (ser1 s2) @ [MESSAGE_PING g], rx := tl (rx (ser1 s2))\<rparr>\<rparr>"
  have o1: "openSerialPortCON s0 = (Inr (), s1)" and o2: "openSerialPortDUT s1 = (Inr (), s2)"
    using assms(1,2) s0f by (simp_all add: s1_def s2_def)
  have hs: "first_handshake g s2 = (Inr (), s3)"
    unfolding s3_def using assms(3) s0f by (intro first_handshake_ok) (simp_all add: s2_def s1_def)
  have run: "run_tests g ?w ns init_loop_state s2 =
             run_tests g ?w ns (init_loop_state\<lparr>TestBegin := False\<rparr>) s3"
    using hs nsne by (intro run_tests_TestBegin) simp_all
  have "status (ser2 s3) = Opened" "\<not> TestBegin (init_loop_state\<lparr>TestBegin := False\<rparr>)"
    "rx (ser2 s3) = concat (map pair_lines ps) @ rest"
    by (simp_all add: s3_def s2_def)
  from run_tests_session [OF this assms(5,6) nsps, of ?w] obtain ls' where
    r: "run_tests g ?w ns (init_loop_state\<lparr>TestBegin := False\<rparr>) s3 =
        (Inr ls', s3\<lparr>ser2 := (ser2 s3)\<lparr>rx := rest\<rparr>,
           log := log s3 @ results_log 1 0 0 (map (pair_verdict e) ps),
           clock := clock s3 + ?w * int (length ps)\<rparr>)"
    by (auto simp: init_loop_state_def)
  define s4 where "s4 = s3\<lparr>ser2 := (ser2 s3)\<lparr>rx := rest\<rparr>,
           log := log s3 @ results_log 1 0 0 (map (pair_verdict e) ps),
           clock := clock s3 + ?w * int (length ps)\<rparr>"
  define s5 where "s5 = s4\<lparr>ser1 := (ser1 s4)\<lparr>status := Closed\<rparr>\<rparr>"
  define s6 where "s6 = s5\<lparr>ser2 := (ser2 s5)\<lparr>status := Closed\<rparr>\<rparr>"
  have c1: "CloseSerialPortCON s4 = (Inr (), s5)" and c2: "CloseSerialPortDUT s5 = (Inr (), s6)"
    by (simp_all add: s6_def s5_def s4_def s3_def s2_def s1_def)
  have loop: "LoopAndLog g s = (Inr (), s6\<lparr>log := log s6 @ [''Finished'']\<rparr>)"
    using o1 o2 r [folded run s4_def] c1 c2 unfolding s0 ns_def by (rule LoopAndLog_Inr)
  have "int ?m = CheckMaxTests (args g)" using CheckMaxTests_pos [of "args g"] by simp
  with loop assms(4) s0f show ?thesis
    by (simp add: s6_def s5_def s4_def s3_def s2_def s1_def)
qed

text \<open>
  C10: The loop's statistics are those of the DUT's readings. When both ports are open and
  the DUT sends its two start-up lines followed by \<open>m\<close> well-formed pairs of readings, the
  loop over \<open>range(1, m + 1)\<close> completes with \<open>testCounter = m\<close>, each channel's pass counter
  equal to the number of its readings within the band, and each pass rate recomputed as
  \<open>100 * passes / m\<close>.
\<close>

theorem run_tests_statistics:
  assumes "status (ser1 s) = Opened" and "status (ser2 s) = Opened"
    and "rx (ser2 s) = b1 # b2 # concat (map pair_lines ps) @ rest"
    and "\<forall>p\<in>set ps. reading_ok (fst p) \<and> reading_ok (snd p)"
    and "computeExpected runtest_config (fAMP g) = Inr e"
    and "length ps = m" and "0 < m"
  shows "\<exists>ls s'. run_tests g w [1..<m + 1] init_loop_state s = (Inr ls, s') \<and>
           testCounter ls = m \<and>
           PassCounterChannel1 ls = passes1 (map (pair_verdict e) ps) \<and>
           PassCounterChannel2 ls = passes2 (map (pair_verdict e) ps) \<and>
           SuccessStatChannel1 ls = 100 * real (passes1 (map (pair_verdict e) ps)) / real m \<and>
           SuccessStatChannel2 ls = 100 * real (passes2 (map (pair_verdict e) ps)) / real m"
proof -
  let ?ns = "[1..<m + 1]" and ?vs = "map (pair_verdict e) ps"
  define s1 where "s1 = s\<lparr>ser2 := (ser2 s)\<lparr>rx := concat (map pair_lines ps) @ rest\<rparr>,
                    ser1 := (ser1 s)\<lparr>tx := tx (ser1 s) @ [MESSAGE_PING g], rx := tl (rx (ser1 s))\<rparr>\<rparr>"
  have hs: "first_handshake g s = (Inr (), s1)"
    unfolding s1_def using assms(1-3) by (rule first_handshake_ok)
  have ne: "?ns \<noteq> []" using assms(7) by simp
  have pre: "status (ser2 s1) = Opened" "\<not> TestBegin (init_loop_state\<lparr>TestBegin := False\<rparr>)"
    "rx (ser2 s1) = concat (map pair_lines ps) @ rest"
    using assms(2) by (simp_all add: s1_def)
  have nsps: "?ns = [1..<1 + length ps]" using assms(6) by simp
  obtain s' where "run_tests g w ?ns (init_loop_state\<lparr>TestBegin := False\<rparr>) s1 =
      (Inr (tally_list ?ns ?vs (init_loop_state\<lparr>TestBegin := False\<rparr>)), s')"
    using run_tests_session [OF pre assms(4,5) nsps, of w] by blast
  moreover have "run_tests g w ?ns init_loop_state s =
      run_tests g w ?ns (init_loop_state\<lparr>TestBegin := False\<rparr>) s1"
    using hs ne by (intro run_tests_TestBegin) simp_all
  ultimately have run: "run_tests g w ?ns init_loop_state s =
      (Inr ((tally_list ?ns ?vs init_loop_state)\<lparr>TestBegin := False\<rparr>), s')"
    by (simp only: tally_list_TestBegin)
  have "length ?vs = length ?ns" using assms(6) by simp
  from tally_list_counts [OF this ne, of init_loop_state] run assms(7) show ?thesis
    by (simp add: last_upt_from_1)
qed

text \<open>
  C12: The run completes on a well-behaved DUT. When both devices are present and the DUT
  sends two start-up lines followed by a well-formed pair of readings for each of the
  \<open>MAX_TEST\<close> iterations, \<open>LoopAndLog\<close> returns normally, whatever the controller replies
  (or if it stays silent): it sends the stimulus command exactly once, consumes exactly
  these lines, logs the start line, two lines per iteration and \<open>Finished\<close>, sleeps
  \<open>MAX_TEST\<close> times the interval, and closes both ports.
\<close>

theorem LoopAndLog_completes:
  assumes "present (ser1 s)" and "present (ser2 s)"
    and "rx (ser2 s) = b1 # b2 # concat (map pair_lines ps) @ rest"
    and "length ps = nat (CheckMaxTests (args g))"
    and "\<forall>p\<in>set ps. reading_ok (fst p) \<and> reading_ok (snd p)"
  shows "\<exists>s'. LoopAndLog g s = (Inr (), s') \<and>
           status (ser1 s') = Closed \<and> status (ser2 s') = Closed \<and>
           tx (ser1 s') = tx (ser1 s) @ [MESSAGE_PING g] \<and> rx (ser2 s') = rest \<and>
           length (log s') = length (log s) + 2 * length ps + 2 \<and> last (log s') = ''Finished'' \<and>
           clock s' = clock s + CheckInterval (args g) * CheckMaxTests (args g)"
proof -
  obtain e where "computeExpected runtest_config (fAMP g) = Inr e"
    using computeExpected_runtest_Inr by blast
  from LoopAndLog_session [OF assms this] show ?thesis
    by auto
qed

text \<open>
  C13: A malformed reading ends the whole run. When the first reading line after the two
  start-up lines does not split into five fields, \<open>LoopAndLog\<close> raises \<open>ValueError\<close> out of
  the first iteration: no result line and no \<open>Finished\<close> is logged, and both ports are left
  open. (The spec's scenario C says the channel fails and the run continues.)
\<close>

theorem LoopAndLog_aborts_malformed:
  assumes "present (ser1 s)" and "present (ser2 s)"
    and "rx (ser2 s) = b1 # b2 # l # rest"
    and "length (py_split (CHR '','') (py_rstrip l)) \<noteq> 5"
  shows "\<exists>s'. LoopAndLog g s = (Inl (ValueError_unpack (length (py_split (CHR '','') (py_rstrip l)))), s') \<and>
           status (ser1 s') = Opened \<and> status (ser2 s') = Opened \<and>
           log s' = log s @ [''Tests Started - Device COM port '' @ DUT_PORT g] \<and> rx (ser2 s') = rest"
proof -
  have "LoopAndLog g s = (Inl (ValueError_unpack (length (py_split (CHR '','') (py_rstrip l)))),
           s\<lparr>log := log s @ [''Tests Started - Device COM port '' @ DUT_PORT g],
              ser2 := (ser2 s)\<lparr>status := Opened, timeout := 10, rx := rest\<rparr>,
              ser1 := (ser1 s)\<lparr>status := Opened, timeout := 10, tx := tx (ser1 s) @ [MESSAGE_PING g],
                               rx := tl (rx (ser1 s))\<rparr>\<rparr>)"
    using assms by (intro LoopAndLog_first_RunTest_Inl) (simp_all add: RunTest_first_malformed)
  then show ?thesis by simp
qed

text \<open>
  C15: The results log of a completed session is exactly the spec's results sink: after the
  start line, for each iteration \<open>k\<close> one record per channel with \<open>k\<close>, the channel's verdict on
  the \<open>k\<close>-th pair of readings and the pass rate \<open>100 * passes / k\<close> over the first \<open>k\<close>
  verdicts, in the order of the iterations, and then \<open>Finished\<close>.
\<close>

theorem LoopAndLog_log:
  assumes "present (ser1 s)" and "present (ser2 s)"
    and "rx (ser2 s) = b1 # b2 # concat (map pair_lines ps) @ rest"
    and "length ps = nat (CheckMaxTests (args g))"
    and "\<forall>p\<in>set ps. reading_ok (fst p) \<and> reading_ok (snd p)"
    and "computeExpected runtest_config (fAMP g) = Inr e"
  shows "\<exists>s'. LoopAndLog g s = (Inr (), s') \<and>
           log s' = log s @ [''Tests Started - Device COM port '' @ DUT_PORT g] @
                    session_records (map (pair_verdict e) ps) @ [''Finished'']"
  using LoopAndLog_session [OF assms, unfolded results_log_session_records] by blast

text \<open>
  C18: Opening a port is the one failure the script lets through without a verdict: when the
  controller or the DUT is not attached, \<open>LoopAndLog\<close> raises pyserial's
  \<open>SerialException\<close> after logging its start line; no command is sent, no line is read,
  the DUT port is left as it was and nothing is slept.
\<close>

theorem LoopAndLog_port_missing:
  assumes "\<not> present (ser1 s) \<or> \<not> present (ser2 s)"
  shows "\<exists>s'. LoopAndLog g s = (Inl (SerialException ''could not open port''), s') \<and>
           log s' = log s @ [''Tests Started - Device COM port '' @ DUT_PORT g] \<and>
           rx (ser1 s') = rx (ser1 s) \<and> tx (ser1 s') = tx (ser1 s) \<and> ser2 s' = ser2 s \<and>
           clock s' = clock s"
  using assms unfolding LoopAndLog_def Let_def
  by (cases "present (ser1 s)")
     (simp_all add: ebind_apply emodify_apply openSerialPortCON_def openSerialPortDUT_def port_open_def)

text \<open>
  C19: A silent DUT ends the run. When both devices are attached but the DUT sends at most
  two lines (the two start-up lines the handshake discards, or fewer), every further
  \<open>readline()\<close> times out with the empty string, and \<open>LoopAndLog\<close> raises \<open>ValueError\<close>
  (one value where five are needed) in its first iteration, after sending the stimulus
  command once; no result line is logged and both ports stay open. (The spec counts a
  \<open>TransportTimeout\<close> as a failed iteration and continues the run.)
\<close>

theorem LoopAndLog_silent_DUT:
  assumes "present (ser1 s)" and "present (ser2 s)" and "length (rx (ser2 s)) \<le> 2"
  shows "\<exists>s'. LoopAndLog g s = (Inl (ValueError_unpack 1), s') \<and>
           status (ser1 s') = Opened \<and> status (ser2 s') = Opened \<and>
           tx (ser1 s') = tx (ser1 s) @ [MESSAGE_PING g] \<and> rx (ser2 s') = [] \<and>
           log s' = log s @ [''Tests Started - Device COM port '' @ DUT_PORT g]"
proof -
  have "drop 2 (rx (ser2 s)) = []" using assms(3) by simp
  then have "LoopAndLog g s = (Inl (ValueError_unpack 1),
           s\<lparr>log := log s @ [''Tests Started - Device COM port '' @ DUT_PORT g],
              ser2 := (ser2 s)\<lparr>status := Opened, timeout := 10, rx := drop 2 (rx (ser2 s))\<rparr>,
              ser1 := (ser1 s)\<lparr>status := Opened, timeout := 10, tx := tx (ser1 s) @ [MESSAGE_PING g],
                               rx := tl (rx (ser1 s))\<rparr>\<rparr>)"
    using assms(1,2) by (intro LoopAndLog_first_RunTest_Inl RunTest_no_line) simp_all
  with assms(3) show ?thesis by simp
qed

section \<open>Witnesses\<close>

theorem LoopAndLog_completes_witness:
  "\<exists>s'. LoopAndLog
      \<lparr>DUT_PORT = ''COM7'', DUT_BAUD = 115200, uC_PORT = ''COM8'', uC_BAUD = 9600, fAMP = 0.43,
      FREQ = 50, args = \<lparr>interval = None, maxtest = Some 1\<rparr>, str_fAMP = ''0.43''\<rparr>
      \<lparr>ser1 = \<lparr>status = Unopened, present = True, timeout = 10, rx = [''OK''], tx = []\<rparr>,
      ser2 = \<lparr>status = Unopened, present = True, timeout = 10,
        rx = [''boot1'', ''boot2'', dut_line ''ADC'' ''1'' 409 0 817, dut_line ''ADC'' ''2'' 445 0 817], tx = []\<rparr>,
      log = [], clock = 0\<rparr> = (Inr (), s') \<and>
    status (ser1 s') = Closed \<and> status (ser2 s') = Closed \<and>
    tx (ser1 s') = [MESSAGE_PING
      \<lparr>DUT_PORT = ''COM7'', DUT_BAUD = 115200, uC_PORT = ''COM8'', uC_BAUD = 9600, fAMP = 0.43,
      FREQ = 50, args = \<lparr>interval = None, maxtest = Some 1\<rparr>, str_fAMP = ''0.43''\<rparr>] \<and>
    rx (ser2 s') = [] \<and>
    length (log s') = 4 \<and> last (log s') = ''Finished'' \<and> clock s' = 1"
  using LoopAndLog_completes [of "\<lparr>ser1 = \<lparr>status = Unopened, present = True, timeout = 10, rx = [''OK''], tx = []\<rparr>,
      ser2 = \<lparr>status = Unopened, present = True, timeout = 10,
        rx = [''boot1'', ''boot2'', dut_line ''ADC'' ''1'' 409 0 817, dut_line ''ADC'' ''2'' 445 0 817], tx = []\<rparr>,
      log = [], clock = 0\<rparr>"
      "''boot1''" "''boot2''" "[((''ADC'', ''1'', 409, 0, 817), (''ADC'', ''2'', 445, 0, 817))]" "[]"
      "\<lparr>DUT_PORT = ''COM7'', DUT_BAUD = 115200, uC_PORT = ''COM8'', uC_BAUD = 9600, fAMP = 0.43,
      FREQ = 50, args = \<lparr>interval = None, maxtest = Some 1\<rparr>, str_fAMP = ''0.43''\<rparr>"]
  by (simp add: pair_lines_def reading_line_def reading_ok_def CheckMaxTests_def CheckInterval_def
      eval_nat_numeral)

theorem LoopAndLog_aborts_malformed_witness:
  "\<exists>s'. LoopAndLog
      \<lparr>DUT_PORT = ''COM7'', DUT_BAUD = 115200, uC_PORT = ''COM8'', uC_BAUD = 9600, fAMP = 0.43,
      FREQ = 50, args = \<lparr>interval = None, maxtest = Some 1\<rparr>, str_fAMP = ''0.43''\<rparr>
      \<lparr>ser1 = \<lparr>status = Unopened, present = True, timeout = 10, rx = [''OK''], tx = []\<rparr>,
      ser2 = \<lparr>status = Unopened, present = True, timeout = 10,
        rx = [''boot1'', ''boot2'', ''ADC,1,404,0'' @ crlf], tx = []\<rparr>,
      log = [], clock = 0\<rparr> = (Inl (ValueError_unpack 4), s') \<and>
    status (ser1 s') = Opened \<and> status (ser2 s') = Opened \<and>
    log s' = [''Tests Started - Device COM port COM7''] \<and> rx (ser2 s') = []"
  using LoopAndLog_aborts_malformed [of "\<lparr>ser1 = \<lparr>status = Unopened, present = True, timeout = 10, rx = [''OK''], tx = []\<rparr>,
      ser2 = \<lparr>status = Unopened, present = True, timeout = 10,
        rx = [''boot1'', ''boot2'', ''ADC,1,404,0'' @ crlf], tx = []\<rparr>,
      log = [], clock = 0\<rparr>"
      "''boot1''" "''boot2''" "''ADC,1,404,0'' @ crlf" "[]"
      "\<lparr>DUT_PORT = ''COM7'', DUT_BAUD = 115200, uC_PORT = ''COM8'', uC_BAUD = 9600, fAMP = 0.43,
      FREQ = 50, args = \<lparr>interval = None, maxtest = Some 1\<rparr>, str_fAMP = ''0.43''\<rparr>"]
  by (simp add: crlf_def py_rstrip_def py_isspace_def eval_nat_numeral)

theorem LoopAndLog_log_witness:
  "\<exists>s'. LoopAndLog
      \<lparr>DUT_PORT = ''COM7'', DUT_BAUD = 115200, uC_PORT = ''COM8'', uC_BAUD = 9600, fAMP = 0.43,
      FREQ = 50, args = \<lparr>interval = None, maxtest = Some 1\<rparr>, str_fAMP = ''0.43''\<rparr>
      \<lparr>ser1 = \<lparr>status = Unopened, present = True, timeout = 10, rx = [''OK''], tx = []\<rparr>,
      ser2 = \<lparr>status = Unopened, present = True, timeout = 10,
        rx = [''boot1'', ''boot2'', dut_line ''ADC'' ''1'' 409 0 817, dut_line ''ADC'' ''2'' 445 0 817], tx = []\<rparr>,
      log = [], clock = 0\<rparr> = (Inr (), s') \<and>
    log s' = [''Tests Started - Device COM port COM7'', log_line 1 True 100, log_line 1 False 0,
              ''Finished'']"
  using LoopAndLog_log [of "\<lparr>ser1 = \<lparr>status = Unopened, present = True, timeout = 10, rx = [''OK''], tx = []\<rparr>,
      ser2 = \<lparr>status = Unopened, present = True, timeout = 10,
        rx = [''boot1'', ''boot2'', dut_line ''ADC'' ''1'' 409 0 817, dut_line ''ADC'' ''2'' 445 0 817], tx = []\<rparr>,
      log = [], clock = 0\<rparr>"
      "''boot1''" "''boot2''" "[((''ADC'', ''1'', 409, 0, 817), (''ADC'', ''2'', 445, 0, 817))]" "[]"
      "\<lparr>DUT_PORT = ''COM7'', DUT_BAUD = 115200, uC_PORT = ''COM8'', uC_BAUD = 9600, fAMP = 0.43,
      FREQ = 50, args = \<lparr>interval = None, maxtest = Some 1\<rparr>, str_fAMP = ''0.43''\<rparr>"
      "\<lparr>iADCmean = 404, iADCpeakMin = 0, iADCpeakMax = 817\<rparr>"] computeExpected_runtest_043
  by (simp add: pair_lines_def reading_line_def reading_ok_def CheckMaxTests_def session_records_def
      pair_verdict_def reading_verdict_def channel_ok_def inBand_def passes1_def passes2_def)

theorem LoopAndLog_port_missing_witness:
  "\<exists>s'. LoopAndLog
\<lparr>DUT_PORT = ''COM7'', DUT_BAUD = 115200, uC_PORT = ''COM8'', uC_BAUD = 9600, fAMP = 0.43,
      FREQ = 50, args = \<lparr>interval = None, maxtest = Some 1\<rparr>, str_fAMP = ''0.43''\<rparr>
      \<lparr>ser1 = \<lparr>status = Unopened, present = False, timeout = 10, rx = [''OK''], tx = []\<rparr>,
      ser2 = \<lparr>status = Unopened, present = True, timeout = 10, rx = [], tx = []\<rparr>,
      log = [], clock = 0\<rparr> = (Inl (SerialException ''could not open port''), s') \<and>
    log s' = [''Tests Started - Device COM port COM7''] \<and> rx (ser1 s') = [''OK''] \<and> tx (ser1 s') = [] \<and>
    ser2 s' = \<lparr>status = Unopened, present = True, timeout = 10, rx = [], tx = []\<rparr> \<and> clock s' = 0"
  using LoopAndLog_port_missing [of "\<lparr>ser1 = \<lparr>status = Unopened, present = False, timeout = 10, rx = [''OK''], tx = []\<rparr>,
      ser2 = \<lparr>status = Unopened, present = True, timeout = 10, rx = [], tx = []\<rparr>,
      log = [], clock = 0\<rparr>" "\<lparr>DUT_PORT = ''COM7'', DUT_BAUD = 115200, uC_PORT = ''COM8'', uC_BAUD = 9600, fAMP = 0.43,
      FREQ = 50, args = \<lparr>interval = None, maxtest = Some 1\<rparr>, str_fAMP = ''0.43''\<rparr>"]
  by simp

theorem LoopAndLog_silent_DUT_witness:
  "\<exists>s'. LoopAndLog
\<lparr>DUT_PORT = ''COM7'', DUT_BAUD = 115200, uC_PORT = ''COM8'', uC_BAUD = 9600, fAMP = 0.43,
      FREQ = 50, args = \<lparr>interval = None, maxtest = Some 1\<rparr>, str_fAMP = ''0.43''\<rparr>
      \<lparr>ser1 = \<lparr>status = Unopened, present = True, timeout = 10, rx = [''OK''], tx = []\<rparr>,
      ser2 = \<lparr>status = Unopened, present = True, timeout = 10, rx = [''boot1''], tx = []\<rparr>,
      log = [], clock = 0\<rparr> = (Inl (ValueError_unpack 1), s') \<and>
    status (ser1 s') = Opened \<and> status (ser2 s') = Opened \<and>
    tx (ser1 s') = [MESSAGE_PING
      \<lparr>DUT_PORT = ''COM7'', DUT_BAUD = 115200, uC_PORT = ''COM8'', uC_BAUD = 9600, fAMP = 0.43,
      FREQ = 50, args = \<lparr>interval = None, maxtest = Some 1\<rparr>, str_fAMP = ''0.43''\<rparr>] \<and> rx (ser2 s') = [] \<and>
    log s' = [''Tests Started - Device COM port COM7'']"
  using LoopAndLog_silent_DUT [of "\<lparr>ser1 = \<lparr>status = Unopened, present = True, timeout = 10, rx = [''OK''], tx = []\<rparr>,
      ser2 = \<lparr>status = Unopened, present = True, timeout = 10, rx = [''boot1''], tx = []\<rparr>,
      log = [], clock = 0\<rparr>" "\<lparr>DUT_PORT = ''COM7'', DUT_BAUD = 115200, uC_PORT = ''COM8'', uC_BAUD = 9600, fAMP = 0.43,
      FREQ = 50, args = \<lparr>interval = None, maxtest = Some 1\<rparr>, str_fAMP = ''0.43''\<rparr>"]
  by simp

theorem run_tests_statistics_witness:
  "\<exists>ls s'. run_tests
      \<lparr>DUT_PORT = ''COM7'', DUT_BAUD = 115200, uC_PORT = ''COM8'', uC_BAUD = 9600, fAMP = 0.43,
      FREQ = 50, args = \<lparr>interval = None, maxtest = Some 1\<rparr>, str_fAMP = ''0.43''\<rparr>
      1 [1..<1 + 1] init_loop_state
      \<lparr>ser1 = \<lparr>status = Opened, present = True, timeout = 10, rx = [''OK''], tx = []\<rparr>,
      ser2 = \<lparr>status = Opened, present = True, timeout = 10,
        rx = [''boot1'', ''boot2'', dut_line ''ADC'' ''1'' 409 0 817, dut_line ''ADC'' ''2'' 445 0 817], tx = []\<rparr>,
      log = [], clock = 0\<rparr> = (Inr ls, s') \<and>
    testCounter ls = 1 \<and> PassCounterChannel1 ls = 1 \<and> PassCounterChannel2 ls = 0 \<and>
    SuccessStatChannel1 ls = 100 \<and> SuccessStatChannel2 ls = 0"
  using run_tests_statistics [of "\<lparr>ser1 = \<lparr>status = Opened, present = True, timeout = 10, rx = [''OK''], tx = []\<rparr>,
      ser2 = \<lparr>status = Opened, present = True, timeout = 10,
        rx = [''boot1'', ''boot2'', dut_line ''ADC'' ''1'' 409 0 817, dut_line ''ADC'' ''2'' 445 0 817], tx = []\<rparr>,
      log = [], clock = 0\<rparr>" "''boot1''" "''boot2''"
      "[((''ADC'', ''1'', 409, 0, 817), (''ADC'', ''2'', 445, 0, 817))]" "[]"
      "\<lparr>DUT_PORT = ''COM7'', DUT_BAUD = 115200, uC_PORT = ''COM8'', uC_BAUD = 9600, fAMP = 0.43,
      FREQ = 50, args = \<lparr>interval = None, maxtest = Some 1\<rparr>, str_fAMP = ''0.43''\<rparr>" "\<lparr>iADCmean = 404, iADCpeakMin = 0, iADCpeakMax = 817\<rparr>" 1 1]
    computeExpected_runtest_043
  by (simp add: pair_lines_def reading_line_def reading_ok_def pair_verdict_def reading_verdict_def
      channel_ok_def inBand_def passes1_def passes2_def)

end
