(* ===== verification/Input_Parse.thy ===== *)
theory Input_Parse
  imports Sampling_Test
begin

text \<open>
  \<open>InputParse.GetInput\<close> of the draft \<open>src/ADC_Test_V0_2.py\<close> (lines 58-89). The method
  declares six positional arguments and the options \<open>-i/--interval\<close> and \<open>-m/--maxtest\<close>,
  each with a conversion: \<open>type=str\<close> keeps the text, \<open>type=int\<close> applies \<open>int()\<close>, and a value
  \<open>int()\<close> rejects makes argparse print a usage error and exit with status 2. It stores the
  namespace in the global \<open>args\<close> and returns the six positional values. The draft declares
  the amplitude and the frequency with \<open>type=str\<close> (version 1.0 uses \<open>float\<close> and \<open>int\<close>).

  How argparse matches the command line to the arguments is library code and not modelled:
  the input is the text argparse assigns to each argument (\<open>None\<close> for an absent option).

  Lemmas: the conversions of the integer arguments; C22 composes \<open>GetInput\<close> with
  \<open>CheckMaxTests\<close> and \<open>CheckInterval\<close> of theory \<open>Sampling_Test\<close>.
\<close>

section \<open>Data\<close>

text \<open>The text of each argument, as argparse matched it from \<open>sys.argv\<close>.\<close>

record raw_args =
  dutCOM :: string
  dutBaud :: string
  uCOM :: string
  uBaud :: string
  Amplitude :: string
  Frequency :: string
  raw_interval :: "string option"
  raw_maxtest :: "string option"

text \<open>The six values \<open>GetInput\<close> returns, with the types the draft declares.\<close>

type_synonym inputs_V02 = "string \<times> int \<times> string \<times> int \<times> string \<times> string"

section \<open>Operations\<close>

text \<open>\<open>type=int\<close>: \<open>int()\<close> of the text, or the argparse error (exit status 2).\<close>

definition arg_int :: "string \<Rightarrow> py_error + int" where
  "arg_int s = (case py_int s of None \<Rightarrow> Inl (SystemExit 2) | Some i \<Rightarrow> Inr i)"

text \<open>An option with \<open>type=int\<close>: absent is \<open>None\<close>, present is converted.\<close>

fun opt_int :: "string option \<Rightarrow> py_error + int option" where
  "opt_int None = Inr None"
| "opt_int (Some s) = (case arg_int s of Inl e \<Rightarrow> Inl e | Inr i \<Rightarrow> Inr (Some i))"

text \<open>
  \<open>GetInput\<close> (lines 79-89): the conversions of the declared types, the namespace \<open>args\<close>
  (its options as \<open>cli_args\<close>) and the returned tuple.
\<close>

definition GetInput_V02 :: "raw_args \<Rightarrow> py_error + inputs_V02 \<times> cli_args" where
  "GetInput_V02 r =
     (case arg_int (dutBaud r) of Inl e \<Rightarrow> Inl e | Inr dutBaud_v \<Rightarrow>
     (case arg_int (uBaud r) of Inl e \<Rightarrow> Inl e | Inr uBaud_v \<Rightarrow>
     (case opt_int (raw_interval r) of Inl e \<Rightarrow> Inl e | Inr interval_v \<Rightarrow>
     (case opt_int (raw_maxtest r) of Inl e \<Rightarrow> Inl e | Inr maxtest_v \<Rightarrow>
       Inr ((dutCOM r, dutBaud_v, uCOM r, uBaud_v, Amplitude r, Frequency r),
            \<lparr>interval = interval_v, maxtest = maxtest_v\<rparr>)))))"

section \<open>Lemmas\<close>

fun_cases opt_int_InrE: "opt_int v = Inr x"

lemma arg_int_show_int [simp]: "arg_int (show_int i) = Inr i"
  by (simp add: arg_int_def)

lemma arg_int_Inl_iff: "arg_int s = Inl e \<longleftrightarrow> py_int s = None \<and> e = SystemExit 2"
  by (auto simp: arg_int_def split: option.splits)

lemma opt_int_Inr:
  "opt_int v = Inr x \<Longrightarrow> (v = None \<and> x = None) \<or> (\<exists>s i. v = Some s \<and> py_int s = Some i \<and> x = Some i)"
  by (erule opt_int_InrE) (auto simp: arg_int_def split: option.splits)

section \<open>Properties\<close>

text \<open>
  C22: The test settings follow from the command line as the spec's InvalidConfiguration
  rule says: whenever \<open>GetInput\<close> returns, the number of tests \<open>CheckMaxTests\<close> computes from
  the namespace it stored is the integer \<open>int()\<close> reads from the \<open>-m\<close> text when that is
  positive, and 20 when it is zero, negative or absent; likewise the interval from \<open>-i\<close>,
  with default 1 second.
\<close>

theorem GetInput_V02_test_settings:
  assumes "GetInput_V02 r = Inr (v, a)"
  shows "CheckMaxTests a = (case Option.bind (raw_maxtest r) py_int of None \<Rightarrow> 20 | Some m \<Rightarrow> if 0 < m then m else 20) \<and>
         CheckInterval a = (case Option.bind (raw_interval r) py_int of None \<Rightarrow> 1 | Some i \<Rightarrow> if 0 < i then i else 1)"
  using assms
  by (cases "raw_maxtest r"; cases "raw_interval r")
     (auto simp: GetInput_V02_def CheckMaxTests_def CheckInterval_def arg_int_def split: sum.splits option.splits)

section \<open>Witnesses\<close>

theorem GetInput_V02_test_settings_witness:
  "CheckMaxTests (snd (projr (GetInput_V02 \<lparr>dutCOM = ''COM7'', dutBaud = ''115200'', uCOM = ''COM8'', uBaud = ''9600'',
      Amplitude = ''0.43'', Frequency = ''50'', raw_interval = Some '' 3'', raw_maxtest = Some ''-5''\<rparr>))) = 20 \<and>
   CheckInterval (snd (projr (GetInput_V02 \<lparr>dutCOM = ''COM7'', dutBaud = ''115200'', uCOM = ''COM8'', uBaud = ''9600'',
      Amplitude = ''0.43'', Frequency = ''50'', raw_interval = Some '' 3'', raw_maxtest = Some ''-5''\<rparr>))) = 3"
proof -
  let ?r = "\<lparr>dutCOM = ''COM7'', dutBaud = ''115200'', uCOM = ''COM8'', uBaud = ''9600'',
      Amplitude = ''0.43'', Frequency = ''50'', raw_interval = Some '' 3'', raw_maxtest = Some ''-5''\<rparr>"
  have g: "GetInput_V02 ?r = Inr ((''COM7'', 115200, ''COM8'', 9600, ''0.43'', ''50''), \<lparr>interval = Some 3, maxtest = Some (-5)\<rparr>)"
    by (simp add: GetInput_V02_def arg_int_def py_int_eval)
  show ?thesis
    using GetInput_V02_test_settings [OF g] g by (simp add: py_int_eval)
qed

end
