(* ===== verification/Draft_V0_2.thy ===== *)
theory Draft_V0_2
  imports Runner
begin

text \<open>
  The draft \<open>src/ADC_Test_V0_2.py\<close> (version 0.2), its own functions translated as written.
  The file does not compile: line 261 (\<open>iADCPkMin  = \<close>, inside \<open>RunTest\<close>) and line 413
  (\<open>global fVrefCON = 3.5\<close>, inside \<open>main\<close>) are syntax errors, so running it raises
  \<open>SyntaxError\<close> before any of its code runs. No property of the draft's behaviour is claimed
  here: the definitions record what its functions' statements say, for comparison with
  version 1.0, and \<open>main\<close>, whose body needs line 413 to mean something, is not modelled.

  The class \<open>SerialConnecter\<close>, \<open>CheckMaxTests\<close>, \<open>CheckInterval\<close> and \<open>GetInput\<close> are textually
  those of version 1.0 (theories \<open>Serial\<close>, \<open>Sampling_Test\<close>, \<open>Input_Parse\<close>) apart from the
  DUT timeout (\<open>openSerialPortDUT_V02\<close>, 21 s) and the string-typed amplitude and frequency.
  What differs: \<open>RunTest\<close> (lines 175-258, before the syntax error) does the start-up
  handshake itself, splits the first line without stripping it, and computes from globals,
  where \<open>fAMP*fVrefCON\<close> of line 256 multiplies the string amplitude by a float
  (\<open>TypeError\<close>); \<open>LoopAndLog\<close> (lines 346-403) calls the methods of \<open>SamplingTest\<close> on the
  class (line 360, \<open>TypeError\<close> in Python 2), and its loop body reads the undefined global
  \<open>AMP\<close> (line 366) and shares the counter updates of version 1.0 (\<open>tally\<close>, \<open>log_line\<close>).
\<close>

section \<open>State\<close>

text \<open>The module globals the draft reads (\<open>None\<close>: declared \<open>global\<close> but never assigned).\<close>

record globals_V02 =
  MESSAGE_PING_V02 :: "string option"
  fAMP_V02 :: string
  fVrefCON_V02 :: "real option"
  BitRes_V02 :: "real option"

section \<open>Operations\<close>

text \<open>\<open>openSerialPortDUT\<close> of the draft (lines 108-110): timeout 21 seconds.\<close>

definition openSerialPortDUT_V02 :: "(io_state, unit) exc" where
  "openSerialPortDUT_V02 s =
     (case port_open 21 (ser2 s) of Inl err \<Rightarrow> (Inl err, s) | Inr p \<Rightarrow> (Inr (), s\<lparr>ser2 := p\<rparr>))"

text \<open>A global read: \<open>NameError\<close> when it was never assigned.\<close>

definition read_global :: "string \<Rightarrow> 'a option \<Rightarrow> (io_state, 'a) exc" where
  "read_global x v = (case v of None \<Rightarrow> eraise (NameError x) | Some a \<Rightarrow> ereturn a)"

text \<open>
  \<open>RunTest\<close> of the draft, lines 175-258: sleep one second, read the DUT's ready line,
  send \<open>MESSAGE_PING\<close> and read the controller's reply, read and split the two reading
  lines (a tuple assignment of five fields each), then \<open>iADCMean = 1500/BitRes\<close> and
  \<open>fVoltPkMax = (fAMP*fVrefCON)+(0.43*fVrefCON)\<close>, where the string \<open>fAMP\<close> times a float
  raises \<open>TypeError\<close>. The statements after line 258 are cut off by the syntax error of
  line 261.
\<close>

definition RunTest_V02 :: "globals_V02 \<Rightarrow> (io_state, 'a) exc" where
  "RunTest_V02 G =
     ebind (emodify (\<lambda>s. s\<lparr>clock := clock s + 1\<rparr>)) (\<lambda>_.
     ebind ReadSerialPortLineDUT (\<lambda>received_data.
     ebind (read_global ''MESSAGE_PING'' (MESSAGE_PING_V02 G)) (\<lambda>MESSAGE_PING.
     ebind (SendSerialCON MESSAGE_PING False) (\<lambda>_.
     ebind ReadSerialPortLineCON (\<lambda>_.
     ebind ReadSerialPortLineDUT (\<lambda>received_data.
     ebind (elift (unpack5 (py_split (CHR '','') received_data)))
       (\<lambda>(Header1, ADC_Channel1, ADC_Average1, ADC_Min1, ADC_Max1).
     ebind ReadSerialPortLineDUT (\<lambda>received_data.
     ebind (elift (unpack5 (py_split (CHR '','') received_data)))
       (\<lambda>(Header2, ADC_Channel2, ADC_Average2, ADC_Min2, ADC_Max2).
     ebind (read_global ''BitRes'' (BitRes_V02 G)) (\<lambda>BitRes.
     ebind (if BitRes = 0 then eraise ZeroDivisionError else ereturn (1500 / BitRes)) (\<lambda>iADCMean.
     ebind (read_global ''fVrefCON'' (fVrefCON_V02 G)) (\<lambda>fVrefCON.
     eraise (TypeError ''unsupported operand: str * float'')))))))))))))"

text \<open>
  One iteration of the \<open>for\<close> loop of the draft's \<open>LoopAndLog\<close> (lines 364-398). Line 366
  builds \<open>MESSAGE_PING = '1,' + str(AMP) + ...\<close> from the global \<open>AMP\<close>, which nothing in the
  file defines (the amplitude global is \<open>fAMP\<close>): \<open>NameError\<close>. Line 368 would then call
  \<open>SamplingTest.RunTest()\<close> on the class: \<open>TypeError\<close>. The counter updates and result lines
  of lines 370-396 are those of version 1.0 (\<open>tally\<close>, \<open>log_line\<close>), and line 398 sleeps.
\<close>

definition loop_body_V02 :: "int \<Rightarrow> nat \<Rightarrow> loop_state \<Rightarrow> (io_state, loop_state) exc" where
  "loop_body_V02 w n ls =
     ebind (read_global ''AMP'' (None :: string option)) (\<lambda>AMP.
     ebind (eraise (TypeError ''unbound method RunTest() must be called with SamplingTest instance''))
       (\<lambda>EngineResults.
     ebind (emodify (\<lambda>s. s\<lparr>log := log s @
              [log_line n (fst EngineResults) (SuccessStatChannel1 (tally n EngineResults ls)),
               log_line n (snd EngineResults) (SuccessStatChannel2 (tally n EngineResults ls))]\<rparr>)) (\<lambda>_.
     ebind (emodify (\<lambda>s. s\<lparr>clock := clock s + w\<rparr>)) (\<lambda>_.
     ereturn (tally n EngineResults ls)))))"

text \<open>\<open>for testCounter in range(1, MAX_TEST+1)\<close> of the draft (lines 363-398).\<close>

fun run_tests_V02 :: "int \<Rightarrow> nat list \<Rightarrow> loop_state \<Rightarrow> (io_state, loop_state) exc" where
  "run_tests_V02 w [] ls = ereturn ls"
| "run_tests_V02 w (n # ns) ls = ebind (loop_body_V02 w n ls) (\<lambda>ls'. run_tests_V02 w ns ls')"

text \<open>
  \<open>LoopAndLog\<close> of the draft, lines 346-403: it logs the start line, then calls
  \<open>SamplingTest.CheckInterval()\<close> and \<open>SamplingTest.CheckMaxTests()\<close> on the class (an
  unbound method called without an instance raises \<open>TypeError\<close> in Python 2), opens both
  ports (the DUT's with 21 s), runs the loop, closes the ports and logs \<open>Finished\<close>.
\<close>

definition LoopAndLog_V02 :: "string \<Rightarrow> (io_state, unit) exc" where
  "LoopAndLog_V02 dut_port =
     ebind (emodify (\<lambda>s. s\<lparr>log := log s @ [''Tests Started - Device COM port '' @ dut_port]\<rparr>)) (\<lambda>_.
     ebind (eraise (TypeError ''unbound method CheckInterval() must be called with SamplingTest instance''))
       (\<lambda>TEST_WAIT_PERIOD_SECONDS.
     ebind (eraise (TypeError ''unbound method CheckMaxTests() must be called with SamplingTest instance''))
       (\<lambda>MAX_TEST :: int.
     ebind openSerialPortCON (\<lambda>_.
     ebind openSerialPortDUT_V02 (\<lambda>_.
     ebind (run_tests_V02 TEST_WAIT_PERIOD_SECONDS [1..<nat MAX_TEST + 1] init_loop_state) (\<lambda>_.
     ebind CloseSerialPortCON (\<lambda>_.
     ebind CloseSerialPortDUT (\<lambda>_.
     emodify (\<lambda>s. s\<lparr>log := log s @ [''Finished'']\<rparr>)))))))))"

end
