(* ===== verification/Spec2Isabelle.thy ===== *)
theory Spec2Isabelle
  imports Session Input_Parse Draft_V0_2
begin

text \<open>
  \<^bold>\<open>A verification model of the ADC sampling-engine test script.\<close>

  The repository holds one program in two versions: \<open>src/ADC_Test.py\<close> (version 1.0, a
  Python 2 script) and the draft \<open>src/ADC_Test_V0_2.py\<close> (version 0.2). The script drives a
  controller board that generates a sine wave and a device under test (DUT) that samples it
  on two channels; it predicts the ADC counts the DUT should report, compares the reported
  counts against a band of 20 counts, and keeps a pass rate per channel over a number of
  iterations, logging each result.

  \<^bold>\<open>Parts and theories.\<close>
  \<^item> \<open>Prelude\<close>: Python exceptions as the datatype \<open>py_error\<close>; effectful code as functions of
    the exception-state type \<open>('s, 'a) exc\<close> (\<open>ereturn\<close>, \<open>eraise\<close>, \<open>ebind\<close>, \<open>elift\<close>,
    \<open>emodify\<close>), in which an exception keeps the effects performed before it, as in Python;
    \<open>int()\<close> of a float as \<open>py_trunc\<close> (truncation toward zero).
  \<^item> \<open>Py_Str\<close>: the string builtins the script applies to serial lines (\<open>rstrip\<close>,
    \<open>split(',')\<close>, \<open>int(s)\<close>, \<open>str(n)\<close>), modelled from the language reference; they are not
    code of the repository. Lemmas: split inverts join; \<open>int(str(n)) = n\<close> with surrounding
    whitespace, used wherever a reading line printed by the DUT is parsed back.
  \<^item> \<open>Waveform\<close>: the expected-value computation of \<open>SamplingTest.RunTest\<close> (lines 182-198,
    245-289): \<open>dac_sample\<close>, the summing loop \<open>dac_sum_loop\<close> (a \<open>function\<close> with a measure),
    \<open>adc_count\<close>, \<open>computeExpected\<close>, the constants \<open>runtest_config\<close> and the enums
    \<open>Amplitudes\<close>, \<open>Frequencies\<close>. Float arithmetic is exact \<open>real\<close> arithmetic with \<open>sin\<close> and
    \<open>pi\<close>. Lemmas C1-C4: the sine terms cancel so the mean is \<open>(N-1)/N\<close> of the offset (404
    counts at the script's constants); the closed form of all three expectations; indices 75
    and 25 are trough and crest; bounds over the amplitude range.
  \<^item> \<open>Tolerance\<close>: the limit dictionaries and the six comparisons of \<open>RunTest\<close> (lines 204-219,
    291-360) as \<open>make_limits\<close>, \<open>set_limits\<close>, \<open>check_value\<close>, \<open>evaluate_channel(s)\<close>; the
    spec's \<open>inBand\<close> and \<open>channel_ok\<close> are the abstract contract, and C5 is the refinement
    lemma; C6 characterises the \<open>ValueError\<close> of \<open>int()\<close> and the order of the checks; C16
    fixes the band's edges at 20 counts.
  \<^item> \<open>Serial\<close>: the class \<open>SerialConnecter\<close> (lines 97-159) over a model of two pyserial ports
    (record \<open>port\<close>: opened or not, device present, timeout, lines the device will send,
    writes received) and the state \<open>io_state\<close> (both ports, the results log, seconds slept).
    \<open>readline()\<close> returns \<open>''\<close> on timeout, as pyserial does. The datatype \<open>serial_op\<close> of
    the methods, \<open>serial_exec\<close> and the inductive step relation \<open>serial_step\<close>; C14 by rule
    induction over its runs: opened ports keep their 10 s timeout. C17: \<open>SendSerialCON\<close> with
    \<open>getline\<close> set raises \<open>AttributeError\<close> after the write. C21: the spec's two independent
    channels; a straight-line sequence of calls \<open>serial_seq\<close> (the first exception ends it)
    gives the controller calls the same results and the controller port the same final state
    when the DUT calls are removed (\<open>con_op\<close> selects the controller methods).
  \<^item> \<open>Sampling_Test\<close>: \<open>RunTest\<close> composed from the above (read two DUT lines, five-field tuple
    assignments, expected values, evaluation), \<open>CheckMaxTests\<close>, \<open>CheckInterval\<close>,
    \<open>CalculateMean\<close>. Lemmas C7-C9: verdicts on well-formed lines, timeout and malformed
    lines raise \<open>ValueError\<close> for the whole call; C20: the channel field is never read,
    the readings are judged by arrival order.
  \<^item> \<open>Runner\<close>: \<open>LoopAndLog\<close> (lines 414-492) as \<open>first_handshake\<close>, \<open>tally\<close>, \<open>loop_body\<close>,
    \<open>run_tests\<close> (structural recursion over \<open>range(1, MAX_TEST+1)\<close>) and \<open>LoopAndLog\<close>;
    \<open>main\<close>. The abstract statistics \<open>tally_list\<close>, \<open>passes1\<close>, \<open>passes2\<close> are the spec's
    SessionStatistics, \<open>session_records\<close> the spec's results sink. C11: scenario D.
  \<^item> \<open>Session\<close>: whole sessions against a DUT described by the readings it sends. The exact
    final state of a run of the loop (\<open>run_tests_session\<close>: loop state \<open>tally_list\<close> of the
    readings' verdicts) and of a session (\<open>LoopAndLog_session\<close>) give C10, the loop's
    counters and pass rates are those of the readings; C12, completion on a well-behaved DUT
    with both ports closed; C15, the refinement lemma that the log is the spec's results sink
    \<open>session_records\<close> (iteration number, verdict and pass rate recomputed over the verdicts
    so far, per channel), derived through the incremental \<open>results_log\<close>; C13, a malformed
    reading ends the whole run with the ports open; C18: a missing device raises
    \<open>SerialException\<close> from the open methods before anything is sent (the one fatal error the
    spec allows); C19: a DUT silent after its start-up lines ends the run with \<open>ValueError\<close>
    in the first iteration.
  \<^item> \<open>Input_Parse\<close>: \<open>InputParse.GetInput\<close> of the draft (lines 58-89, textually that of
    version 1.0 apart from the types of the amplitude and frequency): from the text argparse
    assigns to each argument, the declared conversions (\<open>arg_int\<close>, \<open>opt_int\<close>; a value
    \<open>int()\<close> rejects exits with status 2), the namespace \<open>args\<close> and the returned tuple.
    C22: composed with \<open>CheckMaxTests\<close> and \<open>CheckInterval\<close>, the settings are the values
    read from \<open>-m\<close> and \<open>-i\<close> when positive and the defaults 20 and 1 otherwise.
  \<^item> \<open>Draft_V0_2\<close>: the draft's own functions translated as written (\<open>openSerialPortDUT_V02\<close>
    with 21 s, \<open>RunTest_V02\<close> up to line 258, \<open>LoopAndLog_V02\<close> with \<open>run_tests_V02\<close> and
    \<open>loop_body_V02\<close>). The draft does not compile, so no property of its behaviour is
    claimed; its code that is textually that of version 1.0 is verified through the theories
    above.

  \<^bold>\<open>Fuel and bounds.\<close> No fuel is needed: the only loops are \<open>for\<close> loops over finite ranges,
  modelled by structural recursion (\<open>run_tests\<close>, \<open>tally_list\<close>) or by a \<open>function\<close> with
  the measure \<open>iMaxSamples - i\<close> (\<open>dac_sum_loop\<close>). Python ints are unbounded and modelled as
  \<open>int\<close>/\<open>nat\<close>; floats as \<open>real\<close>, so rounding of the float computations is not modelled
  (the truncated counts 404, 0, 817 etc. are the exact-arithmetic values, none of which is
  within float error of an integer boundary); statements "for every amplitude" hold of the
  exact values, not of huge, infinite or NaN floats.

  \<^bold>\<open>Not modelled.\<close> How argparse matches \<open>sys.argv\<close> to the arguments (library code):
  \<open>GetInput\<close> starts from the matched texts (\<open>raw_args\<close>); version 1.0's conversion of the
  amplitude needs Python's \<open>float()\<close> and is not modelled, so version 1.0's \<open>main\<close> takes its
  results as the parameters \<open>config\<close> and \<open>cli_args\<close>. Console \<open>print\<close> output and the
  timestamps of the log. The text of \<open>str(fAMP)\<close> for a float (the field \<open>str_fAMP\<close>). The
  draft as a whole does not compile (syntax errors at line 261, in \<open>RunTest\<close>, and line 413,
  in \<open>main\<close>), so running it does nothing but raise \<open>SyntaxError\<close>: its \<open>main\<close> is not modelled
  (its body needs line 413 to mean something), nor the code after line 258 of its
  \<open>RunTest\<close> (lines 259-324), which besides the syntax error names pulse-counter variables
  (\<open>PulseCounter1_Val\<close>, \<open>NUM_PULSES\<close>, \<open>myModem\<close>) of another script.
\<close>

end
